theory Spec2Isabelle
  imports Main "HOL-Library.AList"
begin

section \<open>JavaScript values\<close>

text \<open>
  The helmet middleware (the second document of \<^verbatim>\<open>src/test/vafast.test.ts\<close>, the
  package's \<^verbatim>\<open>index.ts\<close>) is embedded function by function. Strings are lists of
  8-bit code units. Numbers are the integers (\<^verbatim>\<open>maxAge\<close> values are seconds,
  \<^verbatim>\<open>Date.now()\<close> is a count of milliseconds). A thrown exception is the \<open>Inl\<close> branch of
  a sum: \<^verbatim>\<open>throw new Error(msg)\<close> is \<open>Inl (Error msg)\<close>, a run-time type failure of the
  engine or of the \<^verbatim>\<open>Headers\<close> class is \<open>Inl (TypeError msg)\<close>.
\<close>

datatype js_error = Error string | TypeError string

text \<open>
  An optional property of an object literal: the key may be missing, it may be present
  and hold \<^verbatim>\<open>undefined\<close>, or it holds a value. Object spread copies a present key
  even when its value is \<^verbatim>\<open>undefined\<close>; reading is \<^verbatim>\<open>undefined\<close> in the first two cases.
\<close>

datatype 'a js_prop = Absent | Undefined | Value 'a

definition spread_prop :: "'a js_prop \<Rightarrow> 'a js_prop \<Rightarrow> 'a js_prop" where
  "spread_prop d u = (case u of Absent \<Rightarrow> d | _ \<Rightarrow> u)"

definition truthy_flag :: "bool js_prop \<Rightarrow> bool" where
  "truthy_flag p = (case p of Value b \<Rightarrow> b | _ \<Rightarrow> False)"

text \<open>
  An object with string keys whose enumeration order matters is an association list in
  insertion order. Assigning to an existing key keeps its position, a new key goes last
  (\<open>AList.update\<close>). \<^verbatim>\<open>Object.assign(target, source)\<close> assigns the entries of the source
  in order, \<^verbatim>\<open>{...a, ...b}\<close> assigns \<open>a\<close> and then \<open>b\<close> to a fresh object. The engine
  enumerates keys that are canonical array indices (\<^verbatim>\<open>"0"\<close>, \<^verbatim>\<open>"12"\<close>) before all others;
  the model covers objects without such keys.
\<close>

definition obj_assign :: "('k \<times> 'v) list \<Rightarrow> ('k \<times> 'v) list \<Rightarrow> ('k \<times> 'v) list" where
  "obj_assign target source = fold (\<lambda>(k, v) acc. AList.update k v acc) source target"

definition obj_spread :: "('k \<times> 'v) list \<Rightarrow> ('k \<times> 'v) list \<Rightarrow> ('k \<times> 'v) list" where
  "obj_spread a b = obj_assign (obj_assign [] a) b"

subsection \<open>Strings and numbers\<close>

definition is_upper :: "char \<Rightarrow> bool" where
  "is_upper c = (65 \<le> (of_char c :: nat) \<and> (of_char c :: nat) \<le> 90)"

definition to_lower :: "char \<Rightarrow> char" where
  "to_lower c =
     (if is_upper c then ''abcdefghijklmnopqrstuvwxyz'' ! ((of_char c :: nat) - 65) else c)"

text \<open>\<^verbatim>\<open>Array.prototype.join(sep)\<close> on an array of strings.\<close>

fun js_join :: "string \<Rightarrow> string list \<Rightarrow> string" where
  "js_join sep [] = []"
| "js_join sep [x] = x"
| "js_join sep (x # y # ys) = x @ sep @ js_join sep (y # ys)"

text \<open>
  Number to string, for integers (decimal digits, a minus sign when negative).
  \<open>digit_char\<close> is the digit of a value below sixteen, as \<^verbatim>\<open>JSON.stringify\<close> writes it in
  a \<^verbatim>\<open>\\u00XX\<close> escape.
\<close>

definition digit_char :: "nat \<Rightarrow> char" where
  "digit_char d = ''0123456789abcdef'' ! d"

fun string_of_nat :: "nat \<Rightarrow> string" where
  "string_of_nat n =
     (if n < 10 then [digit_char n]
      else string_of_nat (n div 10) @ [digit_char (n mod 10)])"

declare string_of_nat.simps [simp del]

definition string_of_int :: "int \<Rightarrow> string" where
  "string_of_int i =
     (if i < 0 then CHR ''-'' # string_of_nat (nat (- i)) else string_of_nat (nat i))"

text \<open>\<^verbatim>\<open>s.slice(-k)\<close>: the last \<open>k\<close> code units, the whole string when it is shorter.\<close>

definition slice_last :: "nat \<Rightarrow> string \<Rightarrow> string" where
  "slice_last k s = drop (length s - k) s"

section \<open>Configuration types\<close>

text \<open>
  \<^verbatim>\<open>CSPConfig\<close>: nine directive keys hold source lists, \<^verbatim>\<open>reportUri\<close> holds a string,
  \<^verbatim>\<open>useNonce\<close> and \<^verbatim>\<open>reportOnly\<close> hold booleans; all are optional. The object is
  enumerated with \<^verbatim>\<open>Object.entries\<close>, so it is an association list of dynamically
  typed values.
\<close>

datatype csp_value = Sources "string list" | Text string | Flag bool | Undef

type_synonym csp_config = "(string \<times> csp_value) list"

record hsts_config =
  maxAge :: "int js_prop"
  includeSubDomains :: "bool js_prop"
  preload :: "bool js_prop"

text \<open>Values handed to \<^verbatim>\<open>JSON.stringify\<close> (the endpoints of a report group).\<close>

datatype json =
    JUndefined
  | JNull
  | JBool bool
  | JNum int
  | JStr string
  | JArr "json list"
  | JObj "(string \<times> json) list"

text \<open>
  \<^verbatim>\<open>ReportToConfig\<close>; the fields carry the prefix \<open>rt_\<close> because \<^verbatim>\<open>maxAge\<close> is
  also a field of \<^verbatim>\<open>HSTSConfig\<close>. \<^verbatim>\<open>includeSubdomains\<close> is optional: \<open>None\<close> is what the
  destructuring pattern of \<^verbatim>\<open>buildReportToString\<close> reads when it is missing.
\<close>

record report_to_config =
  rt_group :: string
  rt_maxAge :: int
  rt_endpoints :: "json list"
  rt_includeSubdomains :: "bool option"

datatype frame_options = DENY | SAMEORIGIN | ALLOW_FROM

datatype referrer_policy =
    NoReferrer
  | NoReferrerWhenDowngrade
  | Origin
  | OriginWhenCrossOrigin
  | SameOrigin
  | StrictOrigin
  | StrictOriginWhenCrossOrigin
  | UnsafeUrl

datatype corp_policy = CorpSameOrigin | CorpSameSite | CorpCrossOrigin

datatype coop_policy = CoopUnsafeNone | CoopSameOriginAllowPopups | CoopSameOrigin

fun frame_options_string :: "frame_options \<Rightarrow> string" where
  "frame_options_string DENY = ''DENY''"
| "frame_options_string SAMEORIGIN = ''SAMEORIGIN''"
| "frame_options_string ALLOW_FROM = ''ALLOW-FROM''"

fun referrer_policy_string :: "referrer_policy \<Rightarrow> string" where
  "referrer_policy_string NoReferrer = ''no-referrer''"
| "referrer_policy_string NoReferrerWhenDowngrade = ''no-referrer-when-downgrade''"
| "referrer_policy_string Origin = ''origin''"
| "referrer_policy_string OriginWhenCrossOrigin = ''origin-when-cross-origin''"
| "referrer_policy_string SameOrigin = ''same-origin''"
| "referrer_policy_string StrictOrigin = ''strict-origin''"
| "referrer_policy_string StrictOriginWhenCrossOrigin = ''strict-origin-when-cross-origin''"
| "referrer_policy_string UnsafeUrl = ''unsafe-url''"

fun corp_policy_string :: "corp_policy \<Rightarrow> string" where
  "corp_policy_string CorpSameOrigin = ''same-origin''"
| "corp_policy_string CorpSameSite = ''same-site''"
| "corp_policy_string CorpCrossOrigin = ''cross-origin''"

fun coop_policy_string :: "coop_policy \<Rightarrow> string" where
  "coop_policy_string CoopUnsafeNone = ''unsafe-none''"
| "coop_policy_string CoopSameOriginAllowPopups = ''same-origin-allow-popups''"
| "coop_policy_string CoopSameOrigin = ''same-origin''"

text \<open>\<^verbatim>\<open>SecurityConfig\<close>, the type of the user's partial configuration and of \<^verbatim>\<open>finalConfig\<close>.\<close>

record security_config =
  csp :: "csp_config js_prop"
  frameOptions :: "frame_options js_prop"
  xssProtection :: "bool js_prop"
  dnsPrefetch :: "bool js_prop"
  referrerPolicy :: "referrer_policy js_prop"
  permissionsPolicy :: "(string \<times> string list) list js_prop"
  hsts :: "hsts_config js_prop"
  corp :: "corp_policy js_prop"
  coop :: "coop_policy js_prop"
  reportTo :: "report_to_config list js_prop"
  customHeaders :: "(string \<times> string) list js_prop"

section \<open>Constants and defaults\<close>

definition squote :: "string \<Rightarrow> string" where
  "squote s = CHR 0x27 # s @ [CHR 0x27]"

definition permission_SELF :: string where
  "permission_SELF = squote ''self''"

definition permission_UNSAFE_INLINE :: string where
  "permission_UNSAFE_INLINE = squote ''unsafe-inline''"

definition permission_HTTPS :: string where
  "permission_HTTPS = ''https:''"

definition permission_DATA :: string where
  "permission_DATA = ''data:''"

definition permission_NONE :: string where
  "permission_NONE = squote ''none''"

definition permission_BLOB :: string where
  "permission_BLOB = ''blob:''"

definition DEFAULT_CSP_CONFIG :: csp_config where
  "DEFAULT_CSP_CONFIG =
     [(''defaultSrc'', Sources [permission_SELF]),
      (''scriptSrc'', Sources [permission_SELF, permission_UNSAFE_INLINE]),
      (''styleSrc'', Sources [permission_SELF, permission_UNSAFE_INLINE]),
      (''imgSrc'', Sources [permission_SELF, permission_DATA, permission_BLOB]),
      (''fontSrc'', Sources [permission_SELF]),
      (''connectSrc'', Sources [permission_SELF]),
      (''frameSrc'', Sources [permission_SELF]),
      (''objectSrc'', Sources [permission_NONE]),
      (''baseUri'', Sources [permission_SELF])]"

definition DEFAULT_PERMISSIONS_POLICY :: "(string \<times> string list) list" where
  "DEFAULT_PERMISSIONS_POLICY =
     [(''camera'', []), (''microphone'', []), (''geolocation'', []), (''interest-cohort'', [])]"

definition DEFAULT_HSTS :: hsts_config where
  "DEFAULT_HSTS =
     \<lparr>maxAge = Value 15552000, includeSubDomains = Value True, preload = Value True\<rparr>"

definition DEFAULT_SECURITY_CONFIG :: security_config where
  "DEFAULT_SECURITY_CONFIG =
     \<lparr>csp = Value DEFAULT_CSP_CONFIG,
      frameOptions = Value DENY,
      xssProtection = Value True,
      dnsPrefetch = Value False,
      referrerPolicy = Value StrictOriginWhenCrossOrigin,
      permissionsPolicy = Value DEFAULT_PERMISSIONS_POLICY,
      hsts = Value DEFAULT_HSTS,
      corp = Value CorpSameOrigin,
      coop = Value CoopSameOrigin,
      reportTo = Absent,
      customHeaders = Absent\<rparr>"

section \<open>Configuration resolution\<close>

text \<open>\<^verbatim>\<open>{ ...DEFAULT_SECURITY_CONFIG.hsts, ...config.hsts }\<close>.\<close>

definition spread_hsts :: "hsts_config \<Rightarrow> hsts_config \<Rightarrow> hsts_config" where
  "spread_hsts d u =
     \<lparr>maxAge = spread_prop (maxAge d) (maxAge u),
      includeSubDomains = spread_prop (includeSubDomains d) (includeSubDomains u),
      preload = spread_prop (preload d) (preload u)\<rparr>"

text \<open>
  The object literal that initialises \<^verbatim>\<open>finalConfig\<close>: the defaults, overwritten by the
  keys present in the user's object, and then the three keys \<^verbatim>\<open>csp\<close>,
  \<^verbatim>\<open>permissionsPolicy\<close> and \<^verbatim>\<open>hsts\<close> assigned again: merged with their default when the
  user's value is truthy (an object), the default otherwise.
\<close>

definition finalConfig :: "security_config \<Rightarrow> security_config" where
  "finalConfig config =
     \<lparr>csp = Value (case csp config of
                     Value c \<Rightarrow> obj_spread DEFAULT_CSP_CONFIG c
                   | _ \<Rightarrow> DEFAULT_CSP_CONFIG),
      frameOptions = spread_prop (frameOptions DEFAULT_SECURITY_CONFIG) (frameOptions config),
      xssProtection = spread_prop (xssProtection DEFAULT_SECURITY_CONFIG) (xssProtection config),
      dnsPrefetch = spread_prop (dnsPrefetch DEFAULT_SECURITY_CONFIG) (dnsPrefetch config),
      referrerPolicy =
        spread_prop (referrerPolicy DEFAULT_SECURITY_CONFIG) (referrerPolicy config),
      permissionsPolicy = Value (case permissionsPolicy config of
                     Value p \<Rightarrow> obj_spread DEFAULT_PERMISSIONS_POLICY p
                   | _ \<Rightarrow> DEFAULT_PERMISSIONS_POLICY),
      hsts = Value (case hsts config of
                     Value h \<Rightarrow> spread_hsts DEFAULT_HSTS h
                   | _ \<Rightarrow> DEFAULT_HSTS),
      corp = spread_prop (corp DEFAULT_SECURITY_CONFIG) (corp config),
      coop = spread_prop (coop DEFAULT_SECURITY_CONFIG) (coop config),
      reportTo = spread_prop (reportTo DEFAULT_SECURITY_CONFIG) (reportTo config),
      customHeaders =
        spread_prop (customHeaders DEFAULT_SECURITY_CONFIG) (customHeaders config)\<rparr>"

text \<open>Reading a property of a \<^verbatim>\<open>CSPConfig\<close> object: \<^verbatim>\<open>undefined\<close> when the key is missing.\<close>

definition csp_get :: "csp_config \<Rightarrow> string \<Rightarrow> csp_value" where
  "csp_get c k = (case map_of c k of Some v \<Rightarrow> v | None \<Rightarrow> Undef)"

section \<open>Validation\<close>

text \<open>
  \<^verbatim>\<open>config.hsts?.maxAge && config.hsts.maxAge < 0\<close>: the left operand is truthy for a
  number other than zero. The loop over \<^verbatim>\<open>config.reportTo\<close> throws at the first group
  that fails a check.
\<close>

fun validateReports :: "report_to_config list \<Rightarrow> js_error + unit" where
  "validateReports [] = Inr ()"
| "validateReports (report # rest) =
     (if rt_maxAge report < 0 then Inl (Error ''Report-To maxAge must be a positive number'')
      else if length (rt_endpoints report) = 0
        then Inl (Error ''Report-To must have at least one endpoint'')
      else validateReports rest)"

definition validateConfig :: "security_config \<Rightarrow> js_error + unit" where
  "validateConfig config =
     (if (case hsts config of
            Value h \<Rightarrow> (case maxAge h of Value n \<Rightarrow> n \<noteq> 0 \<and> n < 0 | _ \<Rightarrow> False)
          | _ \<Rightarrow> False)
      then Inl (Error ''HSTS maxAge must be a positive number'')
      else (case reportTo config of
              Value reports \<Rightarrow> validateReports reports
            | _ \<Rightarrow> Inr ()))"

section \<open>Directive names\<close>

text \<open>
  \<^verbatim>\<open>str.replace(/[A-Z]/g, (m) => "-" + m.toLowerCase())\<close>, and the memo table
  \<^verbatim>\<open>kebabCache\<close> in front of it: module-level state, passed in and returned. A cached
  entry is used when it is truthy (a non-empty string). The table is a plain object, so
  a lookup of a name that \<^verbatim>\<open>Object.prototype\<close> defines (\<^verbatim>\<open>constructor\<close>, \<^verbatim>\<open>toString\<close>)
  finds the inherited member; no key of \<^verbatim>\<open>CSPConfig\<close> is such a name, and the model
  looks up own entries only.
\<close>

definition kebab :: "string \<Rightarrow> string" where
  "kebab str = concat (map (\<lambda>m. if is_upper m then [CHR ''-'', to_lower m] else [m]) str)"

type_synonym kebab_cache = "string \<rightharpoonup> string"

definition toKebabCase :: "kebab_cache \<Rightarrow> string \<Rightarrow> string \<times> kebab_cache" where
  "toKebabCase kebabCache str =
     (case kebabCache str of
        Some cached \<Rightarrow>
          if cached \<noteq> [] then (cached, kebabCache)
          else (kebab str, kebabCache(str \<mapsto> kebab str))
      | None \<Rightarrow> (kebab str, kebabCache(str \<mapsto> kebab str)))"

section \<open>Header builders\<close>

text \<open>
  \<^verbatim>\<open>!values?.length\<close> is false exactly for a non-empty array or a non-empty string: a
  boolean and \<^verbatim>\<open>undefined\<close> have no length. \<^verbatim>\<open>values.join(" ")\<close> exists on arrays only; on
  a string the call is a TypeError.
\<close>

fun has_length :: "csp_value \<Rightarrow> bool" where
  "has_length (Sources xs) = (length xs \<noteq> 0)"
| "has_length (Text s) = (length s \<noteq> 0)"
| "has_length (Flag b) = False"
| "has_length Undef = False"

fun values_join :: "csp_value \<Rightarrow> js_error + string" where
  "values_join (Sources xs) = Inr (js_join '' '' xs)"
| "values_join v = Inl (TypeError ''values.join is not a function'')"

fun truthy :: "csp_value \<Rightarrow> bool" where
  "truthy (Sources xs) = True"
| "truthy (Text s) = (s \<noteq> [])"
| "truthy (Flag b) = b"
| "truthy Undef = False"

definition truthy_string :: "string option \<Rightarrow> bool" where
  "truthy_string s = (case s of Some v \<Rightarrow> v \<noteq> [] | None \<Rightarrow> False)"

text \<open>
  One iteration of the loop of \<^verbatim>\<open>buildCSPString\<close> over \<^verbatim>\<open>Object.entries(csp)\<close>: the
  string pushed to \<^verbatim>\<open>parts\<close>, or \<open>None\<close> for \<^verbatim>\<open>continue\<close> at the first test. In the
  template literal \<^verbatim>\<open>toKebabCase(key)\<close> is evaluated before \<^verbatim>\<open>values.join\<close>, so the memo
  table is already updated when the join throws.
\<close>

definition cspEntry ::
  "kebab_cache \<Rightarrow> csp_config \<Rightarrow> string option \<Rightarrow> string \<times> csp_value
     \<Rightarrow> (js_error + string option) \<times> kebab_cache" where
  "cspEntry kc cspConfig nonce entry =
     (case entry of (key, values) \<Rightarrow>
       if \<not> has_length values \<or> key = ''useNonce'' \<or> key = ''reportOnly''
       then (Inr None, kc)
       else if truthy (csp_get cspConfig ''useNonce'') \<and> truthy_string nonce
               \<and> (key = ''scriptSrc'' \<or> key = ''styleSrc'')
       then (case toKebabCase kc key of (name, kc') \<Rightarrow>
              (case values_join values of
                 Inl e \<Rightarrow> (Inl e, kc')
               | Inr joined \<Rightarrow>
                   (Inr (Some (name @ '' '' @ joined @ '' '' @ squote (''nonce-'' @ the nonce))),
                    kc')))
       else (case toKebabCase kc key of (name, kc') \<Rightarrow>
              (case values_join values of
                 Inl e \<Rightarrow> (Inl e, kc')
               | Inr joined \<Rightarrow> (Inr (Some (name @ '' '' @ joined)), kc'))))"

text \<open>The loop, with the array \<^verbatim>\<open>parts\<close> as accumulator.\<close>

fun cspParts ::
  "kebab_cache \<Rightarrow> csp_config \<Rightarrow> string option \<Rightarrow> (string \<times> csp_value) list \<Rightarrow> string list
     \<Rightarrow> (js_error + string list) \<times> kebab_cache" where
  "cspParts kc cspConfig nonce [] parts = (Inr parts, kc)"
| "cspParts kc cspConfig nonce (entry # entries) parts =
     (case cspEntry kc cspConfig nonce entry of
        (Inl e, kc') \<Rightarrow> (Inl e, kc')
      | (Inr None, kc') \<Rightarrow> cspParts kc' cspConfig nonce entries parts
      | (Inr (Some part), kc') \<Rightarrow> cspParts kc' cspConfig nonce entries (parts @ [part]))"

definition buildCSPString ::
  "kebab_cache \<Rightarrow> csp_config \<Rightarrow> string option \<Rightarrow> (js_error + string) \<times> kebab_cache" where
  "buildCSPString kc cspConfig nonce =
     (case cspParts kc cspConfig nonce cspConfig [] of
        (Inl e, kc') \<Rightarrow> (Inl e, kc')
      | (Inr parts, kc') \<Rightarrow> (Inr (js_join ''; '' parts), kc'))"

definition buildPermissionsPolicyString :: "(string \<times> string list) list \<Rightarrow> string" where
  "buildPermissionsPolicyString policies =
     js_join '', ''
       (map (\<lambda>(key, values).
               if length values = 0 then key @ ''=()''
               else key @ ''=('' @ js_join '' '' values @ '')'')
          policies)"

subsection \<open>JSON.stringify\<close>

definition json_escape :: "char \<Rightarrow> string" where
  "json_escape c =
     (let n = (of_char c :: nat) in
      if n = 34 then [CHR 0x5C, CHR 0x22]
      else if n = 92 then [CHR 0x5C, CHR 0x5C]
      else if n = 8 then [CHR 0x5C, CHR ''b'']
      else if n = 12 then [CHR 0x5C, CHR ''f'']
      else if n = 10 then [CHR 0x5C, CHR ''n'']
      else if n = 13 then [CHR 0x5C, CHR ''r'']
      else if n = 9 then [CHR 0x5C, CHR ''t'']
      else if n < 32
        then [CHR 0x5C, CHR ''u'', CHR ''0'', CHR ''0'', digit_char (n div 16), digit_char (n mod 16)]
      else [c])"

definition json_quote :: "string \<Rightarrow> string" where
  "json_quote s = CHR 0x22 # concat (map json_escape s) @ [CHR 0x22]"

text \<open>
  \<open>None\<close> is the result \<^verbatim>\<open>undefined\<close>: an array element that serialises to it is written
  \<^verbatim>\<open>null\<close>, an object property that serialises to it is left out.
\<close>

fun json_stringify :: "json \<Rightarrow> string option" where
  "json_stringify JUndefined = None"
| "json_stringify JNull = Some ''null''"
| "json_stringify (JBool b) = Some (if b then ''true'' else ''false'')"
| "json_stringify (JNum n) = Some (string_of_int n)"
| "json_stringify (JStr s) = Some (json_quote s)"
| "json_stringify (JArr xs) =
     Some (''['' @ js_join '','' (map (\<lambda>x. case json_stringify x of
                                             None \<Rightarrow> ''null''
                                           | Some s \<Rightarrow> s) xs) @ '']'')"
| "json_stringify (JObj kvs) =
     Some (''{'' @ js_join '','' (concat (map (\<lambda>(k, v). case json_stringify v of
                                             None \<Rightarrow> []
                                           | Some s \<Rightarrow> [json_quote k @ '':'' @ s]) kvs)) @ ''}'')"

definition js_bool_option :: "bool option \<Rightarrow> json" where
  "js_bool_option b = (case b of None \<Rightarrow> JUndefined | Some v \<Rightarrow> JBool v)"

definition reportObj :: "report_to_config list \<Rightarrow> json" where
  "reportObj reports =
     JArr (map (\<lambda>r. JObj [(''group'', JStr (rt_group r)),
                          (''max_age'', JNum (rt_maxAge r)),
                          (''endpoints'', JArr (rt_endpoints r)),
                          (''include_subdomains'', js_bool_option (rt_includeSubdomains r))])
             reports)"

definition buildReportToString :: "report_to_config list \<Rightarrow> string" where
  "buildReportToString reports = the (json_stringify (reportObj reports))"

section \<open>Nonce\<close>

text \<open>
  \<^verbatim>\<open>Buffer.from(Date.now() + Math.random().toString(36).slice(-6)).toString("base64")\<close>.
  The clock and the random number are inputs of a request: \<open>now\<close> is \<^verbatim>\<open>Date.now()\<close> and
  \<open>random36\<close> is the string \<^verbatim>\<open>Math.random().toString(36)\<close>. \<^verbatim>\<open>Buffer.from\<close> encodes in
  UTF-8.
\<close>

record request_env =
  now :: nat
  random36 :: string

definition utf8_encode :: "string \<Rightarrow> nat list" where
  "utf8_encode s =
     concat (map (\<lambda>c. let n = (of_char c :: nat) in
                        if n < 128 then [n] else [192 + n div 64, 128 + n mod 64]) s)"

definition base64_alphabet :: string where
  "base64_alphabet = ''ABCDEFGHIJKLMNOPQRSTUVWXYZabcdefghijklmnopqrstuvwxyz0123456789+/''"

definition base64_char :: "nat \<Rightarrow> char" where
  "base64_char n = base64_alphabet ! (n mod 64)"

fun base64_encode :: "nat list \<Rightarrow> string" where
  "base64_encode [] = []"
| "base64_encode [a] =
     [base64_char (a div 4), base64_char ((a mod 4) * 16), CHR ''='', CHR ''='']"
| "base64_encode [a, b] =
     [base64_char (a div 4), base64_char ((a mod 4) * 16 + b div 16),
      base64_char ((b mod 16) * 4), CHR ''='']"
| "base64_encode (a # b # c # rest) =
     [base64_char (a div 4), base64_char ((a mod 4) * 16 + b div 16),
      base64_char ((b mod 16) * 4 + c div 64), base64_char (c mod 64)] @ base64_encode rest"

definition generateNonce :: "request_env \<Rightarrow> string" where
  "generateNonce env =
     base64_encode (utf8_encode (string_of_nat (now env) @ slice_last 6 (random36 env)))"

section \<open>Responses and the Headers class\<close>

text \<open>
  A \<^verbatim>\<open>Headers\<close> object is its header list: pairs of a name and a value, as the Fetch
  standard defines it. Names are compared byte-case-insensitively. \<^verbatim>\<open>set\<close> strips HTTP
  whitespace from both ends of the value, throws a TypeError unless the name is a token
  and the value has no NUL, LF or CR, and then overwrites the first header of that name
  and removes the others, or appends. \<^verbatim>\<open>get\<close> joins the values of a name with a comma
  and a space. \<^verbatim>\<open>new Headers(h)\<close> copies the list of \<open>h\<close>.
\<close>

type_synonym headers = "(string \<times> string) list"

definition byte_lowercase :: "string \<Rightarrow> string" where
  "byte_lowercase s = map to_lower s"

definition same_name :: "string \<Rightarrow> string \<Rightarrow> bool" where
  "same_name a b = (byte_lowercase a = byte_lowercase b)"

definition http_whitespace :: "char \<Rightarrow> bool" where
  "http_whitespace c = ((of_char c :: nat) \<in> {9, 10, 13, 32})"

definition normalize_value :: "string \<Rightarrow> string" where
  "normalize_value v = rev (dropWhile http_whitespace (rev (dropWhile http_whitespace v)))"

definition is_tchar :: "char \<Rightarrow> bool" where
  "is_tchar c =
     (let n = (of_char c :: nat) in
      (48 \<le> n \<and> n \<le> 57) \<or> (65 \<le> n \<and> n \<le> 90) \<or> (97 \<le> n \<and> n \<le> 122)
      \<or> n \<in> {33, 35, 36, 37, 38, 39, 42, 43, 45, 46, 94, 95, 96, 124, 126})"

definition valid_header_name :: "string \<Rightarrow> bool" where
  "valid_header_name n = (n \<noteq> [] \<and> list_all is_tchar n)"

definition valid_header_value :: "string \<Rightarrow> bool" where
  "valid_header_value v = list_all (\<lambda>c. (of_char c :: nat) \<notin> {0, 10, 13}) v"

definition headers_get :: "headers \<Rightarrow> string \<Rightarrow> string option" where
  "headers_get h n =
     (let vs = map snd (filter (\<lambda>(k, v). same_name k n) h)
      in if vs = [] then None else Some (js_join '', '' vs))"

fun headers_overwrite :: "headers \<Rightarrow> string \<Rightarrow> string \<Rightarrow> headers" where
  "headers_overwrite [] n v = [(n, v)]"
| "headers_overwrite ((k, w) # h) n v =
     (if same_name k n then (k, v) # filter (\<lambda>(k', w'). \<not> same_name k' n) h
      else (k, w) # headers_overwrite h n v)"

definition headers_set :: "headers \<Rightarrow> string \<Rightarrow> string \<Rightarrow> js_error + headers" where
  "headers_set h n v =
     (if \<not> valid_header_name n then Inl (TypeError ''Invalid header name'')
      else if \<not> valid_header_value (normalize_value v)
        then Inl (TypeError ''Invalid header value'')
      else Inr (headers_overwrite h n (normalize_value v)))"

text \<open>
  A \<^verbatim>\<open>Response\<close>, as far as the middleware reads it. The body is opaque: the middleware
  hands the same body to the new response. The model covers the handler responses from
  which \<^verbatim>\<open>new Response(body, init)\<close> builds a response: a status from 200 to 599, a
  status text the constructor accepts, and a body that is absent or an unread stream.
\<close>

record 'b response =
  status :: nat
  statusText :: string
  body :: 'b
  headers :: headers

section \<open>The middleware\<close>

text \<open>
  The three values the returned closure captures. \<^verbatim>\<open>tirneHelmet\<close> computes them once:
  \<open>finalConfig\<close> above, and the static header object and the HSTS header value below.
\<close>

text \<open>
  \<^verbatim>\<open>if (finalConfig.p) { staticHeaders[key] = f(finalConfig.p) }\<close> for a property whose
  values are all truthy (a non-empty string, an array), and the test
  \<^verbatim>\<open>finalConfig.dnsPrefetch !== undefined\<close>: the assignment happens exactly when the
  property holds a value.
\<close>

definition assign_value ::
  "'a js_prop \<Rightarrow> string \<Rightarrow> ('a \<Rightarrow> string) \<Rightarrow> (string \<times> string) list
     \<Rightarrow> (string \<times> string) list" where
  "assign_value p key f obj = (case p of Value x \<Rightarrow> AList.update key (f x) obj | _ \<Rightarrow> obj)"

text \<open>The object \<^verbatim>\<open>staticHeaders\<close> before the custom headers are assigned to it.\<close>

definition builtinStaticHeaders :: "security_config \<Rightarrow> (string \<times> string) list" where
  "builtinStaticHeaders fc =
     (let s1 = assign_value (frameOptions fc) ''X-Frame-Options'' frame_options_string [];
          s2 = (if truthy_flag (xssProtection fc)
                then AList.update ''X-XSS-Protection'' ''1; mode=block'' s1 else s1);
          s3 = AList.update ''X-Content-Type-Options'' ''nosniff'' s2;
          s4 = assign_value (referrerPolicy fc) ''Referrer-Policy'' referrer_policy_string s3;
          s5 = assign_value (dnsPrefetch fc) ''X-DNS-Prefetch-Control''
                 (\<lambda>d. if d then ''on'' else ''off'') s4;
          s6 = assign_value (corp fc) ''Cross-Origin-Resource-Policy'' corp_policy_string s5;
          s7 = assign_value (coop fc) ''Cross-Origin-Opener-Policy'' coop_policy_string s6
      in assign_value (reportTo fc) ''Report-To'' buildReportToString s7)"

text \<open>\<^verbatim>\<open>if (finalConfig.customHeaders) Object.assign(staticHeaders, finalConfig.customHeaders)\<close>.\<close>

definition staticHeaders :: "security_config \<Rightarrow> (string \<times> string) list" where
  "staticHeaders fc =
     (case customHeaders fc of
        Value custom \<Rightarrow> obj_assign (builtinStaticHeaders fc) custom
      | _ \<Rightarrow> builtinStaticHeaders fc)"

text \<open>
  \<open>node_env\<close> is \<^verbatim>\<open>process.env.NODE_ENV\<close>, read when the middleware is constructed. The
  template literal prints \<^verbatim>\<open>undefined\<close> for a \<^verbatim>\<open>maxAge\<close> that holds no number.
\<close>

definition isProduction :: "string option \<Rightarrow> bool" where
  "isProduction node_env = (node_env = Some ''production'')"

definition hstsHeader :: "string option \<Rightarrow> security_config \<Rightarrow> string option" where
  "hstsHeader node_env fc =
     (case hsts fc of
        Value h \<Rightarrow>
          if isProduction node_env
          then Some (''max-age=''
                 @ (case maxAge h of Value n \<Rightarrow> string_of_int n | _ \<Rightarrow> ''undefined'')
                 @ (if truthy_flag (includeSubDomains h) then ''; includeSubDomains'' else [])
                 @ (if truthy_flag (preload h) then ''; preload'' else []))
          else None
      | _ \<Rightarrow> None)"

record helmet =
  cl_finalConfig :: security_config
  cl_staticHeaders :: "(string \<times> string) list"
  cl_hstsHeader :: "string option"

definition tirneHelmet :: "security_config \<Rightarrow> string option \<Rightarrow> js_error + helmet" where
  "tirneHelmet config node_env =
     (case validateConfig config of
        Inl e \<Rightarrow> Inl e
      | Inr u \<Rightarrow>
          Inr \<lparr>cl_finalConfig = finalConfig config,
               cl_staticHeaders = staticHeaders (finalConfig config),
               cl_hstsHeader = hstsHeader node_env (finalConfig config)\<rparr>)"

text \<open>The loop \<^verbatim>\<open>for (const [key, value] of Object.entries(staticHeaders))\<close>.\<close>

fun setStaticHeaders :: "headers \<Rightarrow> (string \<times> string) list \<Rightarrow> js_error + headers" where
  "setStaticHeaders newHeaders [] = Inr newHeaders"
| "setStaticHeaders newHeaders ((key, v) # entries) =
     (case headers_set newHeaders key v of
        Inl e \<Rightarrow> Inl e
      | Inr h \<Rightarrow> setStaticHeaders h entries)"

definition setCSPHeaders ::
  "security_config \<Rightarrow> request_env \<Rightarrow> kebab_cache \<Rightarrow> headers
     \<Rightarrow> (js_error + headers) \<times> kebab_cache" where
  "setCSPHeaders fc env kc newHeaders =
     (case csp fc of
        Value c \<Rightarrow>
          (let nonce = (if truthy (csp_get c ''useNonce'') then Some (generateNonce env) else None);
               headerName = (if truthy (csp_get c ''reportOnly'')
                             then ''Content-Security-Policy-Report-Only''
                             else ''Content-Security-Policy'')
           in (case buildCSPString kc c nonce of
                 (Inl e, kc') \<Rightarrow> (Inl e, kc')
               | (Inr s, kc') \<Rightarrow>
                   (case headers_set newHeaders headerName s of
                      Inl e \<Rightarrow> (Inl e, kc')
                    | Inr h \<Rightarrow>
                        if truthy_string nonce
                        then (headers_set h ''X-Nonce'' (the nonce), kc')
                        else (Inr h, kc'))))
      | _ \<Rightarrow> (Inr newHeaders, kc))"

definition setPermissionsPolicyHeader :: "security_config \<Rightarrow> headers \<Rightarrow> js_error + headers" where
  "setPermissionsPolicyHeader fc newHeaders =
     (case permissionsPolicy fc of
        Value p \<Rightarrow> headers_set newHeaders ''Permissions-Policy'' (buildPermissionsPolicyString p)
      | _ \<Rightarrow> Inr newHeaders)"

definition setHSTSHeader :: "string option \<Rightarrow> headers \<Rightarrow> js_error + headers" where
  "setHSTSHeader hh newHeaders =
     (if truthy_string hh then headers_set newHeaders ''Strict-Transport-Security'' (the hh)
      else Inr newHeaders)"

text \<open>
  The closure returned by \<^verbatim>\<open>tirneHelmet\<close>, run on the response that \<^verbatim>\<open>await next()\<close>
  produced. It yields the new response or the exception, and the memo table as the
  request leaves it.
\<close>

definition middleware ::
  "helmet \<Rightarrow> request_env \<Rightarrow> kebab_cache \<Rightarrow> 'b response
     \<Rightarrow> (js_error + 'b response) \<times> kebab_cache" where
  "middleware cl env kc response =
     (case setStaticHeaders (headers response) (cl_staticHeaders cl) of
        Inl e \<Rightarrow> (Inl e, kc)
      | Inr h1 \<Rightarrow>
          (case setCSPHeaders (cl_finalConfig cl) env kc h1 of
             (Inl e, kc') \<Rightarrow> (Inl e, kc')
           | (Inr h2, kc') \<Rightarrow>
               (case setPermissionsPolicyHeader (cl_finalConfig cl) h2 of
                  Inl e \<Rightarrow> (Inl e, kc')
                | Inr h3 \<Rightarrow>
                    (case setHSTSHeader (cl_hstsHeader cl) h3 of
                       Inl e \<Rightarrow> (Inl e, kc')
                     | Inr newHeaders \<Rightarrow>
                         (Inr \<lparr>status = status response,
                               statusText = statusText response,
                               body = body response,
                               headers = newHeaders\<rparr>, kc')))))"

section \<open>Vocabulary of the properties\<close>

text \<open>
  The definitions of this section are not code of the repository: they name what the
  theorems below talk about. \<open>last_write ws m\<close> is the value of the last pair of \<open>ws\<close>
  whose name is \<open>m\<close> up to case.
\<close>

fun last_write :: "(string \<times> string) list \<Rightarrow> string \<Rightarrow> string option" where
  "last_write [] m = None"
| "last_write ((k, v) # ws) m =
     (case last_write ws m of
        Some x \<Rightarrow> Some x
      | None \<Rightarrow> if same_name k m then Some v else None)"

text \<open>
  The constants \<^verbatim>\<open>nonce\<close> and \<^verbatim>\<open>headerName\<close> of the middleware body, and the calls of
  \<^verbatim>\<open>newHeaders.set\<close> that a request makes after the static headers, in order.
\<close>

definition cspNonce :: "csp_config \<Rightarrow> request_env \<Rightarrow> string option" where
  "cspNonce c env = (if truthy (csp_get c ''useNonce'') then Some (generateNonce env) else None)"

definition cspHeaderName :: "csp_config \<Rightarrow> string" where
  "cspHeaderName c =
     (if truthy (csp_get c ''reportOnly'') then ''Content-Security-Policy-Report-Only''
      else ''Content-Security-Policy'')"

definition cspWrites :: "security_config \<Rightarrow> request_env \<Rightarrow> kebab_cache \<Rightarrow> (string \<times> string) list" where
  "cspWrites fc env kc =
     (case csp fc of
        Value c \<Rightarrow>
          (case fst (buildCSPString kc c (cspNonce c env)) of
             Inl e \<Rightarrow> []
           | Inr s \<Rightarrow>
               (cspHeaderName c, s)
                 # (if truthy_string (cspNonce c env) then [(''X-Nonce'', the (cspNonce c env))]
                    else []))
      | _ \<Rightarrow> [])"

definition permissionsPolicyWrites :: "security_config \<Rightarrow> (string \<times> string) list" where
  "permissionsPolicyWrites fc =
     (case permissionsPolicy fc of
        Value p \<Rightarrow> [(''Permissions-Policy'', buildPermissionsPolicyString p)]
      | _ \<Rightarrow> [])"

definition hstsWrites :: "string option \<Rightarrow> (string \<times> string) list" where
  "hstsWrites hh = (if truthy_string hh then [(''Strict-Transport-Security'', the hh)] else [])"

definition requestWrites :: "helmet \<Rightarrow> request_env \<Rightarrow> kebab_cache \<Rightarrow> (string \<times> string) list" where
  "requestWrites cl env kc =
     cl_staticHeaders cl @ cspWrites (cl_finalConfig cl) env kc
       @ permissionsPolicyWrites (cl_finalConfig cl) @ hstsWrites (cl_hstsHeader cl)"

definition cspBuilds :: "security_config \<Rightarrow> request_env \<Rightarrow> kebab_cache \<Rightarrow> bool" where
  "cspBuilds fc env kc =
     (case csp fc of
        Value c \<Rightarrow> (case fst (buildCSPString kc c (cspNonce c env)) of Inl e \<Rightarrow> False | Inr s \<Rightarrow> True)
      | _ \<Rightarrow> True)"

text \<open>The \<^verbatim>\<open>Headers\<close> class accepts the pair.\<close>

definition valid_write :: "string \<times> string \<Rightarrow> bool" where
  "valid_write w = (valid_header_name (fst w) \<and> valid_header_value (normalize_value (snd w)))"

text \<open>
  \<open>empty_config\<close> is the object \<^verbatim>\<open>{}\<close>, the default of the parameter of \<^verbatim>\<open>tirneHelmet\<close>.
  \<^verbatim>\<open>finalConfig.csp\<close>, \<^verbatim>\<open>finalConfig.permissionsPolicy\<close> and \<^verbatim>\<open>finalConfig.hsts\<close> always
  hold an object; the next three functions read it.
\<close>

definition empty_config :: security_config where
  "empty_config =
     \<lparr>csp = Absent, frameOptions = Absent, xssProtection = Absent, dnsPrefetch = Absent,
      referrerPolicy = Absent, permissionsPolicy = Absent, hsts = Absent, corp = Absent,
      coop = Absent, reportTo = Absent, customHeaders = Absent\<rparr>"

definition resolvedCsp :: "security_config \<Rightarrow> csp_config" where
  "resolvedCsp config = (case csp (finalConfig config) of Value c \<Rightarrow> c | _ \<Rightarrow> [])"

definition resolvedPermissionsPolicy :: "security_config \<Rightarrow> (string \<times> string list) list" where
  "resolvedPermissionsPolicy config =
     (case permissionsPolicy (finalConfig config) of Value p \<Rightarrow> p | _ \<Rightarrow> [])"

definition resolvedHsts :: "security_config \<Rightarrow> hsts_config" where
  "resolvedHsts config = (case hsts (finalConfig config) of Value h \<Rightarrow> h | _ \<Rightarrow> DEFAULT_HSTS)"

text \<open>
  The conditions of the validation: \<^verbatim>\<open>hsts.maxAge\<close> holds a negative number, and the
  report groups of the configuration (none when \<^verbatim>\<open>reportTo\<close> is missing).
\<close>

definition hstsMaxAgeNegative :: "security_config \<Rightarrow> bool" where
  "hstsMaxAgeNegative config =
     (case hsts config of
        Value h \<Rightarrow> (case maxAge h of Value n \<Rightarrow> n < 0 | _ \<Rightarrow> False)
      | _ \<Rightarrow> False)"

definition reportGroups :: "security_config \<Rightarrow> report_to_config list" where
  "reportGroups config = (case reportTo config of Value reports \<Rightarrow> reports | _ \<Rightarrow> [])"

definition is_TypeError :: "js_error \<Rightarrow> bool" where
  "is_TypeError e = (case e of TypeError m \<Rightarrow> True | Error m \<Rightarrow> False)"

text \<open>The two tests of the loop body of \<^verbatim>\<open>buildCSPString\<close>.\<close>

definition skipsEntry :: "string \<Rightarrow> csp_value \<Rightarrow> bool" where
  "skipsEntry key values = (\<not> has_length values \<or> key = ''useNonce'' \<or> key = ''reportOnly'')"

definition noncedEntry :: "csp_config \<Rightarrow> string option \<Rightarrow> string \<Rightarrow> bool" where
  "noncedEntry c nonce key =
     (truthy (csp_get c ''useNonce'') \<and> truthy_string nonce
        \<and> (key = ''scriptSrc'' \<or> key = ''styleSrc''))"

text \<open>
  An entry of a CSP object on which the loop body throws: it is not skipped and its
  value is not an array. For a \<^verbatim>\<open>CSPConfig\<close> this is a \<^verbatim>\<open>reportUri\<close> that holds a
  non-empty string.
\<close>

definition cspEntryFails :: "string \<times> csp_value \<Rightarrow> bool" where
  "cspEntryFails entry =
     (\<not> skipsEntry (fst entry) (snd entry)
        \<and> (case snd entry of Sources xs \<Rightarrow> False | _ \<Rightarrow> True))"

text \<open>The closure that \<^verbatim>\<open>tirneHelmet\<close> returns for a configuration it accepts.\<close>

definition closureOf :: "security_config \<Rightarrow> string option \<Rightarrow> helmet" where
  "closureOf config node_env =
     \<lparr>cl_finalConfig = finalConfig config,
      cl_staticHeaders = staticHeaders (finalConfig config),
      cl_hstsHeader = hstsHeader node_env (finalConfig config)\<rparr>"




text \<open>The keys of the user's \<^verbatim>\<open>customHeaders\<close> object.\<close>

definition customNames :: "security_config \<Rightarrow> string list" where
  "customNames config = (case customHeaders config of Value custom \<Rightarrow> map fst custom | _ \<Rightarrow> [])"

text \<open>
  The memo table is sound when every truthy entry is the kebab-case form of its key. The
  empty table is sound, and \<^verbatim>\<open>toKebabCase\<close>, the only writer, keeps it so.
\<close>

definition kebab_cache_ok :: "kebab_cache \<Rightarrow> bool" where
  "kebab_cache_ok kc = (\<forall>k v. kc k = Some v \<longrightarrow> v \<noteq> [] \<longrightarrow> v = kebab k)"

text \<open>
  The directives of a CSP header, as the specification describes them: every entry of the
  policy that is not skipped and holds a source list gives a directive, named by its key,
  with the sources as tokens and, in nonce mode for \<^verbatim>\<open>scriptSrc\<close> and \<^verbatim>\<open>styleSrc\<close>, the
  token \<^verbatim>\<open>'nonce-<value>'\<close> after them. A directive is written as its kebab-case name and
  its tokens, separated by single spaces; the header value joins the directives with a
  semicolon and a space.
\<close>

definition nonceToken :: "string \<Rightarrow> string" where
  "nonceToken v = squote (''nonce-'' @ v)"

definition cspDirective ::
  "csp_config \<Rightarrow> string option \<Rightarrow> string \<times> csp_value \<Rightarrow> (string \<times> string list) option" where
  "cspDirective c nonce entry =
     (if skipsEntry (fst entry) (snd entry) then None
      else (case snd entry of
              Sources xs \<Rightarrow>
                Some (fst entry,
                      xs @ (if noncedEntry c nonce (fst entry) then [nonceToken (the nonce)]
                            else []))
            | _ \<Rightarrow> None))"

definition cspDirectives :: "csp_config \<Rightarrow> string option \<Rightarrow> (string \<times> string list) list" where
  "cspDirectives c nonce = List.map_filter (cspDirective c nonce) c"

definition renderDirective :: "string \<times> string list \<Rightarrow> string" where
  "renderDirective d = kebab (fst d) @ '' '' @ js_join '' '' (snd d)"

definition cspHeaderValue :: "csp_config \<Rightarrow> string option \<Rightarrow> string" where
  "cspHeaderValue c nonce = js_join ''; '' (map renderDirective (cspDirectives c nonce))"

text \<open>
  The calls of \<^verbatim>\<open>newHeaders.set\<close> of a request in the specification's order: the static
  headers, the CSP header, the nonce header when a nonce was generated, the
  \<^verbatim>\<open>Permissions-Policy\<close> header, and the HSTS header when the middleware has one.
\<close>

definition expectedWrites ::
  "security_config \<Rightarrow> string option \<Rightarrow> request_env \<Rightarrow> (string \<times> string) list" where
  "expectedWrites config node_env env =
     staticHeaders (finalConfig config)
       @ [(cspHeaderName (resolvedCsp config),
           cspHeaderValue (resolvedCsp config) (cspNonce (resolvedCsp config) env))]
       @ (if truthy_string (cspNonce (resolvedCsp config) env)
          then [(''X-Nonce'', the (cspNonce (resolvedCsp config) env))] else [])
       @ [(''Permissions-Policy'',
           buildPermissionsPolicyString (resolvedPermissionsPolicy config))]
       @ hstsWrites (hstsHeader node_env (finalConfig config))"

definition producedHeader ::
  "(js_error + 'b response) \<times> kebab_cache \<Rightarrow> string \<Rightarrow> string option option" where
  "producedHeader result m =
     (case fst result of Inl e \<Rightarrow> None | Inr r \<Rightarrow> Some (headers_get (headers r) m))"

section \<open>Object assignment\<close>

lemma map_of_obj_assign:
  "map_of (obj_assign t s) k = (case map_of (rev s) k of Some v \<Rightarrow> Some v | None \<Rightarrow> map_of t k)"
  unfolding obj_assign_def
proof (induction s arbitrary: t)
  case Nil
  show ?case by simp
next
  case (Cons p s)
  obtain a b where p: "p = (a, b)" by (cases p)
  show ?case
    by (simp add: p Cons.IH update_conv' map_add_def split: option.splits)
qed

section \<open>The Headers class\<close>


lemma headers_overwrite_same:
  "same_name n m \<Longrightarrow>
     map snd (filter (\<lambda>(k, w). same_name k m) (headers_overwrite h n v)) = [v]"
proof (induction h)
  case Nil
  then show ?case by simp
next
  case (Cons p h)
  obtain k w where p: "p = (k, w)" by (cases p)
  from Cons.prems have eq: "\<And>x. same_name x m = same_name x n"
    by (auto simp: same_name_def)
  show ?case
    using Cons by (simp add: p eq filter_empty_conv split_beta)
qed

lemma headers_overwrite_other:
  "\<not> same_name n m \<Longrightarrow>
     filter (\<lambda>(k, w). same_name k m) (headers_overwrite h n v)
       = filter (\<lambda>(k, w). same_name k m) h"
proof (induction h)
  case Nil
  then show ?case by simp
next
  case (Cons p h)
  obtain k w where p: "p = (k, w)" by (cases p)
  have ne: "\<And>x. same_name x n \<Longrightarrow> \<not> same_name x m"
    using Cons.prems by (auto simp: same_name_def)
  show ?case
    using Cons ne by (auto simp: p intro!: filter_cong)
qed

lemma headers_get_overwrite:
  "headers_get (headers_overwrite h n v) m = (if same_name n m then Some v else headers_get h m)"
proof (cases "same_name n m")
  case True
  then show ?thesis
    by (simp add: headers_get_def headers_overwrite_same)
next
  case False
  then show ?thesis
    by (simp add: headers_get_def headers_overwrite_other)
qed

lemma headers_get_set:
  "headers_set h n v = Inr h' \<Longrightarrow>
     headers_get h' m = (if same_name n m then Some (normalize_value v) else headers_get h m)"
  by (auto simp: headers_set_def headers_get_overwrite split: if_splits)

lemma headers_get_setStaticHeaders:
  "setStaticHeaders h ws = Inr h' \<Longrightarrow>
     headers_get h' m =
       (case last_write ws m of Some v \<Rightarrow> Some (normalize_value v) | None \<Rightarrow> headers_get h m)"
proof (induction ws arbitrary: h)
  case Nil
  then show ?case by simp
next
  case (Cons p ws)
  obtain k v where p: "p = (k, v)" by (cases p)
  from Cons.prems obtain h1 where h1: "headers_set h k v = Inr h1"
    and rest: "setStaticHeaders h1 ws = Inr h'"
    by (auto simp: p split: sum.splits)
  show ?case
    using Cons.IH [OF rest] headers_get_set [OF h1, of m]
    by (simp add: p split: option.splits)
qed

lemma setStaticHeaders_append:
  "setStaticHeaders h (a @ b) =
     (case setStaticHeaders h a of Inl e \<Rightarrow> Inl e | Inr h' \<Rightarrow> setStaticHeaders h' b)"
  by (induction a arbitrary: h) (auto split: sum.splits)

lemma last_write_append:
  "last_write (a @ b) m = (case last_write b m of Some x \<Rightarrow> Some x | None \<Rightarrow> last_write a m)"
  by (induction a) (auto split: option.splits)

lemma last_write_update_other:
  "\<not> same_name k m \<Longrightarrow> last_write (AList.update k v al) m = last_write al m"
  by (induction al) (auto split: option.splits)


lemma last_write_update_fresh:
  "same_name k m \<Longrightarrow> last_write al m = None \<Longrightarrow> last_write (AList.update k v al) m = Some v"
  by (induction al) (auto split: option.splits if_splits)

lemma last_write_obj_assign_other:
  "\<forall>k \<in> fst ` set s. \<not> same_name k m \<Longrightarrow> last_write (obj_assign t s) m = last_write t m"
  unfolding obj_assign_def
  by (induction s arbitrary: t) (auto simp: last_write_update_other)

section \<open>The requests of a middleware\<close>

lemma setCSPHeaders_unfold:
  "setCSPHeaders fc env kc h =
     (case csp fc of
        Value c \<Rightarrow>
          (case buildCSPString kc c (cspNonce c env) of
             (Inl e, kc') \<Rightarrow> (Inl e, kc')
           | (Inr s, kc') \<Rightarrow>
               (setStaticHeaders h
                  ((cspHeaderName c, s)
                     # (if truthy_string (cspNonce c env)
                        then [(''X-Nonce'', the (cspNonce c env))] else [])), kc'))
      | _ \<Rightarrow> (Inr h, kc))"
  unfolding setCSPHeaders_def Let_def
  unfolding cspNonce_def [symmetric] cspHeaderName_def [symmetric]
  by (auto split: js_prop.splits prod.splits sum.splits if_splits)

lemma setCSPHeaders_Inr:
  "setCSPHeaders fc env kc h = (Inr h', kc') \<Longrightarrow>
     cspBuilds fc env kc \<and> setStaticHeaders h (cspWrites fc env kc) = Inr h'"
  unfolding setCSPHeaders_unfold cspBuilds_def cspWrites_def
  by (auto split: js_prop.splits prod.splits sum.splits if_splits)

lemma setCSPHeaders_Inr_intro:
  "cspBuilds fc env kc \<Longrightarrow> setStaticHeaders h (cspWrites fc env kc) = Inr h' \<Longrightarrow>
     \<exists>kc'. setCSPHeaders fc env kc h = (Inr h', kc')"
  unfolding setCSPHeaders_unfold cspBuilds_def cspWrites_def
  by (auto split: js_prop.splits prod.splits sum.splits if_splits)

lemma setPermissionsPolicyHeader_writes:
  "setPermissionsPolicyHeader fc h = setStaticHeaders h (permissionsPolicyWrites fc)"
  by (auto simp: setPermissionsPolicyHeader_def permissionsPolicyWrites_def
        split: js_prop.splits sum.splits)

lemma setHSTSHeader_writes:
  "setHSTSHeader hh h = setStaticHeaders h (hstsWrites hh)"
  by (auto simp: setHSTSHeader_def hstsWrites_def split: sum.splits)

lemma middleware_Inr:
  assumes "middleware cl env kc response = (Inr response', kc')"
  shows "cspBuilds (cl_finalConfig cl) env kc"
    and "setStaticHeaders (headers response) (requestWrites cl env kc) = Inr (headers response')"
    and "status response' = status response"
    and "statusText response' = statusText response"
    and "body response' = body response"
proof -
  from assms obtain h1 h2 h3 h4 where
    s1: "setStaticHeaders (headers response) (cl_staticHeaders cl) = Inr h1" and
    s2: "setCSPHeaders (cl_finalConfig cl) env kc h1 = (Inr h2, kc')" and
    s3: "setPermissionsPolicyHeader (cl_finalConfig cl) h2 = Inr h3" and
    s4: "setHSTSHeader (cl_hstsHeader cl) h3 = Inr h4" and
    r: "response' = \<lparr>status = status response, statusText = statusText response,
                      body = body response, headers = h4\<rparr>"
    by (auto simp: middleware_def split: sum.splits prod.splits)
  from setCSPHeaders_Inr [OF s2] show "cspBuilds (cl_finalConfig cl) env kc" by simp
  from setCSPHeaders_Inr [OF s2]
  have s2': "setStaticHeaders h1 (cspWrites (cl_finalConfig cl) env kc) = Inr h2" by simp
  show "setStaticHeaders (headers response) (requestWrites cl env kc) = Inr (headers response')"
    using s1 s2' s3 s4
    by (simp add: requestWrites_def setStaticHeaders_append r
          setPermissionsPolicyHeader_writes setHSTSHeader_writes)
  show "status response' = status response" "statusText response' = statusText response"
    "body response' = body response"
    by (simp_all add: r)
qed

lemma middleware_Inr_intro:
  assumes "cspBuilds (cl_finalConfig cl) env kc"
      and "setStaticHeaders (headers response) (requestWrites cl env kc) = Inr h"
  shows "\<exists>kc'. middleware cl env kc response =
           (Inr \<lparr>status = status response, statusText = statusText response,
                 body = body response, headers = h\<rparr>, kc')"
proof -
  from assms(2) obtain h1 h2 h3 where
    s1: "setStaticHeaders (headers response) (cl_staticHeaders cl) = Inr h1" and
    s2: "setStaticHeaders h1 (cspWrites (cl_finalConfig cl) env kc) = Inr h2" and
    s3: "setStaticHeaders h2 (permissionsPolicyWrites (cl_finalConfig cl)) = Inr h3" and
    s4: "setStaticHeaders h3 (hstsWrites (cl_hstsHeader cl)) = Inr h"
    by (auto simp: requestWrites_def setStaticHeaders_append split: sum.splits)
  from setCSPHeaders_Inr_intro [OF assms(1) s2] obtain kc' where
    c: "setCSPHeaders (cl_finalConfig cl) env kc h1 = (Inr h2, kc')" by blast
  show ?thesis
    using s1 c s3 s4
    by (simp add: middleware_def setPermissionsPolicyHeader_writes setHSTSHeader_writes)
qed

lemma middleware_headers_get:
  assumes "middleware cl env kc response = (Inr response', kc')"
  shows "headers_get (headers response') m =
           (case last_write (requestWrites cl env kc) m of
              Some v \<Rightarrow> Some (normalize_value v)
            | None \<Rightarrow> headers_get (headers response) m)"
  using headers_get_setStaticHeaders [OF middleware_Inr(2) [OF assms]] .

lemma setStaticHeaders_Inr_iff:
  "(\<exists>h'. setStaticHeaders h ws = Inr h') \<longleftrightarrow> list_all valid_write ws"
proof (induction ws arbitrary: h)
  case Nil
  show ?case by simp
next
  case (Cons p ws)
  obtain k v where p: "p = (k, v)" by (cases p)
  show ?case
    using Cons.IH
    by (auto simp: p valid_write_def headers_set_def split: sum.splits)
qed

section \<open>Configuration resolution\<close>

lemma csp_finalConfig: "csp (finalConfig config) = Value (resolvedCsp config)"
  by (simp add: resolvedCsp_def finalConfig_def)

lemma permissionsPolicy_finalConfig:
  "permissionsPolicy (finalConfig config) = Value (resolvedPermissionsPolicy config)"
  by (simp add: resolvedPermissionsPolicy_def finalConfig_def)

lemma hsts_finalConfig: "hsts (finalConfig config) = Value (resolvedHsts config)"
  by (simp add: resolvedHsts_def finalConfig_def)

lemma obj_assign_Nil_DEFAULT_CSP: "obj_assign [] DEFAULT_CSP_CONFIG = DEFAULT_CSP_CONFIG"
  by (simp add: obj_assign_def DEFAULT_CSP_CONFIG_def)



lemma map_of_rev_None: "k \<notin> fst ` set xs \<Longrightarrow> map_of (rev xs) k = None"
  by (simp add: map_of_eq_None_iff)

lemma resolvedCsp_Value:
  "csp config = Value c \<Longrightarrow> resolvedCsp config = obj_assign DEFAULT_CSP_CONFIG c"
  by (simp add: resolvedCsp_def finalConfig_def obj_spread_def obj_assign_Nil_DEFAULT_CSP)

lemma resolvedCsp_default:
  "csp config = Absent \<or> csp config = Undefined \<Longrightarrow> resolvedCsp config = DEFAULT_CSP_CONFIG"
  by (auto simp: resolvedCsp_def finalConfig_def)



section \<open>Validation\<close>

lemma validateReports_Error:
  "validateReports reports = Inl e \<Longrightarrow> \<not> is_TypeError e"
  by (induction reports) (auto simp: is_TypeError_def split: if_splits)

lemma validateReports_Inl_iff:
  "(\<exists>e. validateReports reports = Inl e)
     \<longleftrightarrow> (\<exists>r \<in> set reports. rt_maxAge r < 0 \<or> rt_endpoints r = [])"
  by (induction reports) auto

lemma validateConfig_Error:
  "validateConfig config = Inl e \<Longrightarrow> \<not> is_TypeError e"
  by (auto simp: validateConfig_def is_TypeError_def dest: validateReports_Error
        split: if_splits js_prop.splits)

lemma validateConfig_Inl_iff:
  "(\<exists>e. validateConfig config = Inl e)
     \<longleftrightarrow> hstsMaxAgeNegative config
          \<or> (\<exists>r \<in> set (reportGroups config). rt_maxAge r < 0 \<or> rt_endpoints r = [])"
proof (cases "hstsMaxAgeNegative config")
  case True
  then show ?thesis
    by (auto simp: validateConfig_def hstsMaxAgeNegative_def split: js_prop.splits)
next
  case False
  then have "validateConfig config = validateReports (reportGroups config)"
    by (auto simp: validateConfig_def hstsMaxAgeNegative_def reportGroups_def
          split: js_prop.splits)
  with False show ?thesis
    by (simp add: validateReports_Inl_iff)
qed

lemma tirneHelmet_Inl: "tirneHelmet config node_env = Inl e \<longleftrightarrow> validateConfig config = Inl e"
  by (simp add: tirneHelmet_def split: sum.splits)

section \<open>Errors of a request\<close>

lemma headers_set_TypeError: "headers_set h n v = Inl e \<Longrightarrow> is_TypeError e"
  by (auto simp: headers_set_def is_TypeError_def split: if_splits)

lemma setStaticHeaders_TypeError: "setStaticHeaders h ws = Inl e \<Longrightarrow> is_TypeError e"
  by (induction ws arbitrary: h) (auto dest: headers_set_TypeError split: sum.splits)

lemma values_join_TypeError: "values_join v = Inl e \<Longrightarrow> is_TypeError e"
  by (cases v) (auto simp: is_TypeError_def)

lemma cspEntry_unfold:
  "cspEntry kc c nonce (key, values) =
     (if skipsEntry key values then (Inr None, kc)
      else (case values_join values of
              Inl e \<Rightarrow> (Inl e, snd (toKebabCase kc key))
            | Inr joined \<Rightarrow>
                (Inr (Some (fst (toKebabCase kc key) @ '' '' @ joined
                        @ (if noncedEntry c nonce key
                           then '' '' @ squote (''nonce-'' @ the nonce) else []))),
                 snd (toKebabCase kc key))))"
  unfolding cspEntry_def skipsEntry_def [symmetric] noncedEntry_def [symmetric]
  by (simp split: prod.splits sum.splits)

lemma cspEntry_TypeError: "cspEntry kc c nonce entry = (Inl e, kc') \<Longrightarrow> is_TypeError e"
  by (cases entry) (auto simp: cspEntry_unfold dest: values_join_TypeError split: sum.splits if_splits)

lemma cspParts_TypeError:
  "cspParts kc c nonce entries parts = (Inl e, kc') \<Longrightarrow> is_TypeError e"
proof (induction entries arbitrary: kc parts)
  case Nil
  then show ?case by simp
next
  case (Cons entry entries)
  then show ?case
    by (auto dest: cspEntry_TypeError split: prod.splits sum.splits option.splits)
qed

lemma buildCSPString_TypeError:
  "buildCSPString kc c nonce = (Inl e, kc') \<Longrightarrow> is_TypeError e"
  by (auto simp: buildCSPString_def dest: cspParts_TypeError split: prod.splits sum.splits)

lemma setCSPHeaders_TypeError:
  "setCSPHeaders fc env kc h = (Inl e, kc') \<Longrightarrow> is_TypeError e"
  unfolding setCSPHeaders_unfold
  by (auto dest: buildCSPString_TypeError setStaticHeaders_TypeError headers_set_TypeError
        split: js_prop.splits prod.splits sum.splits if_splits)

lemma middleware_TypeError:
  "middleware cl env kc response = (Inl e, kc') \<Longrightarrow> is_TypeError e"
  unfolding middleware_def setPermissionsPolicyHeader_writes setHSTSHeader_writes
  by (auto dest: setCSPHeaders_TypeError setStaticHeaders_TypeError
        split: prod.splits sum.splits)

section \<open>Failure of the CSP builder\<close>

lemma values_join_Inl_iff:
  "values_join v = Inl e \<longleftrightarrow>
     (case v of Sources xs \<Rightarrow> False | _ \<Rightarrow> True) \<and> e = TypeError ''values.join is not a function''"
  by (cases v) auto

lemma cspEntry_Inl_iff:
  "fst (cspEntry kc c nonce entry) = Inl e \<longleftrightarrow>
     cspEntryFails entry \<and> e = TypeError ''values.join is not a function''"
proof (cases entry)
  case (Pair key v)
  show ?thesis
    by (cases "values_join v")
       (auto simp: Pair cspEntry_unfold cspEntryFails_def values_join_Inl_iff [symmetric])
qed

lemma cspParts_Inl_iff:
  "fst (cspParts kc c nonce entries parts) = Inl e \<longleftrightarrow>
     (\<exists>entry \<in> set entries. cspEntryFails entry) \<and> e = TypeError ''values.join is not a function''"
proof (induction entries arbitrary: kc parts)
  case Nil
  show ?case by simp
next
  case (Cons entry entries)
  show ?case
  proof (cases "cspEntry kc c nonce entry")
    case (Pair r kc1)
    show ?thesis
    proof (cases r)
      case (Inl e1)
      with Pair cspEntry_Inl_iff [of kc c nonce entry e1] show ?thesis
        by auto
    next
      case (Inr part)
      with Pair cspEntry_Inl_iff [of kc c nonce entry] have ok: "\<not> cspEntryFails entry"
        by auto
      show ?thesis
        using Pair Inr ok Cons.IH by (cases part) auto
    qed
  qed
qed

lemma buildCSPString_Inl_iff:
  "fst (buildCSPString kc c nonce) = Inl e \<longleftrightarrow>
     (\<exists>entry \<in> set c. cspEntryFails entry) \<and> e = TypeError ''values.join is not a function''"
proof -
  have "fst (buildCSPString kc c nonce) = Inl e \<longleftrightarrow> fst (cspParts kc c nonce c []) = Inl e"
    by (auto simp: buildCSPString_def split: prod.splits sum.splits)
  then show ?thesis
    by (simp add: cspParts_Inl_iff)
qed

section \<open>Construction\<close>

lemma tirneHelmet_Inr_iff:
  "tirneHelmet config node_env = Inr cl \<longleftrightarrow>
     validateConfig config = Inr () \<and> cl = closureOf config node_env"
  by (auto simp: tirneHelmet_def closureOf_def split: sum.splits)

lemma staticHeaders_empty_config_csp:
  "staticHeaders (finalConfig (empty_config\<lparr>csp := c\<rparr>)) =
     [(''X-Frame-Options'', ''DENY''),
      (''X-XSS-Protection'', ''1; mode=block''),
      (''X-Content-Type-Options'', ''nosniff''),
      (''Referrer-Policy'', ''strict-origin-when-cross-origin''),
      (''X-DNS-Prefetch-Control'', ''off''),
      (''Cross-Origin-Resource-Policy'', ''same-origin''),
      (''Cross-Origin-Opener-Policy'', ''same-origin'')]"
  by (simp add: staticHeaders_def builtinStaticHeaders_def assign_value_def finalConfig_def
        empty_config_def DEFAULT_SECURITY_CONFIG_def spread_prop_def truthy_flag_def Let_def)

lemma valid_default_static:
  "list_all valid_write
     [(''X-Frame-Options'', ''DENY''),
      (''X-XSS-Protection'', ''1; mode=block''),
      (''X-Content-Type-Options'', ''nosniff''),
      (''Referrer-Policy'', ''strict-origin-when-cross-origin''),
      (''X-DNS-Prefetch-Control'', ''off''),
      (''Cross-Origin-Resource-Policy'', ''same-origin''),
      (''Cross-Origin-Opener-Policy'', ''same-origin'')]"
  by (simp add: valid_write_def valid_header_name_def valid_header_value_def is_tchar_def
        normalize_value_def http_whitespace_def)

section \<open>Report-To\<close>




section \<open>The memo table\<close>

lemma kebab_cache_ok_empty: "kebab_cache_ok Map.empty"
  by (simp add: kebab_cache_ok_def)

lemma toKebabCase_ok:
  assumes "kebab_cache_ok kc"
  shows "fst (toKebabCase kc k) = kebab k" and "kebab_cache_ok (snd (toKebabCase kc k))"
  using assms
  by (auto simp: toKebabCase_def kebab_cache_ok_def split: option.splits)

section \<open>Success of the CSP builder\<close>

lemma js_join_snoc: "xs \<noteq> [] \<Longrightarrow> js_join sep (xs @ [t]) = js_join sep xs @ sep @ t"
  by (induction sep xs rule: js_join.induct) auto

lemma cspEntry_Inr:
  assumes "kebab_cache_ok kc" and "cspEntry kc c nonce entry = (Inr r, kc')"
  shows "r = map_option renderDirective (cspDirective c nonce entry)" and "kebab_cache_ok kc'"
proof -
  obtain key v where entry: "entry = (key, v)" by (cases entry)
  show "r = map_option renderDirective (cspDirective c nonce entry)"
  proof (cases "skipsEntry key v")
    case True
    with assms(2) show ?thesis
      by (simp add: entry cspEntry_unfold cspDirective_def)
  next
    case False
    with assms(2) obtain xs where v: "v = Sources xs"
      by (cases v) (auto simp: entry cspEntry_unfold)
    from False have ne: "xs \<noteq> []"
      by (simp add: v skipsEntry_def)
    from assms(2) False show ?thesis
      by (auto simp: entry v cspEntry_unfold cspDirective_def renderDirective_def
            toKebabCase_ok(1) [OF assms(1)] js_join_snoc [OF ne] nonceToken_def)
  qed
  show "kebab_cache_ok kc'"
  proof (cases "skipsEntry key v")
    case True
    with assms show ?thesis
      by (simp add: entry cspEntry_unfold)
  next
    case False
    with assms(2) have "kc' = snd (toKebabCase kc key)"
      by (auto simp: entry cspEntry_unfold split: sum.splits)
    with toKebabCase_ok(2) [OF assms(1)] show ?thesis by simp
  qed
qed

lemma cspEntry_cache_ok:
  assumes "kebab_cache_ok kc"
  shows "kebab_cache_ok (snd (cspEntry kc c nonce entry))"
  using assms toKebabCase_ok(2) [OF assms]
  by (cases entry) (auto simp: cspEntry_unfold split: sum.splits)

lemma cspParts_cache_ok:
  "kebab_cache_ok kc \<Longrightarrow> kebab_cache_ok (snd (cspParts kc c nonce entries parts))"
proof (induction entries arbitrary: kc parts)
  case Nil
  then show ?case by simp
next
  case (Cons entry entries)
  from cspEntry_cache_ok [OF Cons.prems, of c nonce entry] Cons.IH
  show ?case
    by (auto split: prod.splits sum.splits option.splits)
qed

lemma cspParts_Inr:
  "kebab_cache_ok kc \<Longrightarrow> cspParts kc c nonce entries parts = (Inr ps, kc') \<Longrightarrow>
     ps = parts @ map renderDirective (List.map_filter (cspDirective c nonce) entries)"
proof (induction entries arbitrary: kc parts)
  case Nil
  then show ?case by simp
next
  case (Cons entry entries)
  from Cons.prems(2) obtain r kc1 where
    e: "cspEntry kc c nonce entry = (Inr r, kc1)" and
    rest: "cspParts kc1 c nonce entries (case r of None \<Rightarrow> parts | Some part \<Rightarrow> parts @ [part])
             = (Inr ps, kc')"
    by (auto split: prod.splits sum.splits option.splits)
  from cspEntry_Inr [OF Cons.prems(1) e]
  have r: "r = map_option renderDirective (cspDirective c nonce entry)"
    and ok: "kebab_cache_ok kc1" by simp_all
  from Cons.IH [OF ok rest] show ?case
    by (cases "cspDirective c nonce entry") (simp_all add: r)
qed

lemma buildCSPString_cache_ok:
  "kebab_cache_ok kc \<Longrightarrow> kebab_cache_ok (snd (buildCSPString kc c nonce))"
  using cspParts_cache_ok [of kc c nonce c "[]"]
  by (auto simp: buildCSPString_def split: prod.splits sum.splits)

lemma buildCSPString_Inr:
  "kebab_cache_ok kc \<Longrightarrow> fst (buildCSPString kc c nonce) = Inr s \<Longrightarrow> s = cspHeaderValue c nonce"
  using cspParts_Inr [of kc c nonce c "[]"]
  by (auto simp: buildCSPString_def cspHeaderValue_def cspDirectives_def
        split: prod.splits sum.splits)

lemma buildCSPString_ok:
  assumes "kebab_cache_ok kc" and "\<forall>entry \<in> set c. \<not> cspEntryFails entry"
  shows "fst (buildCSPString kc c nonce) = Inr (cspHeaderValue c nonce)"
proof (cases "fst (buildCSPString kc c nonce)")
  case (Inl e)
  with assms(2) show ?thesis
    by (simp add: buildCSPString_Inl_iff)
next
  case (Inr s)
  with buildCSPString_Inr [OF assms(1) Inr] show ?thesis by simp
qed

lemma setCSPHeaders_cache_ok:
  assumes "kebab_cache_ok kc"
  shows "kebab_cache_ok (snd (setCSPHeaders fc env kc h))"
proof (cases "csp fc")
  case (Value c)
  obtain r kc1 where b: "buildCSPString kc c (cspNonce c env) = (r, kc1)"
    by (cases "buildCSPString kc c (cspNonce c env)")
  from buildCSPString_cache_ok [OF assms, of c "cspNonce c env"] b
  have "kebab_cache_ok kc1" by simp
  then show ?thesis
    by (cases r) (simp_all add: setCSPHeaders_unfold Value b)
qed (simp_all add: setCSPHeaders_unfold assms)

lemma middleware_cache_ok:
  assumes "kebab_cache_ok kc"
  shows "kebab_cache_ok (snd (middleware cl env kc response))"
proof (cases "setStaticHeaders (headers response) (cl_staticHeaders cl)")
  case (Inl e)
  then show ?thesis
    by (simp add: middleware_def assms)
next
  case (Inr h1)
  obtain r kc1 where c: "setCSPHeaders (cl_finalConfig cl) env kc h1 = (r, kc1)"
    by (cases "setCSPHeaders (cl_finalConfig cl) env kc h1")
  from setCSPHeaders_cache_ok [OF assms, of "cl_finalConfig cl" env h1] c
  have "kebab_cache_ok kc1" by simp
  then show ?thesis
    by (cases r) (simp_all add: middleware_def Inr c split: sum.splits)
qed

section \<open>Requests of an accepted configuration\<close>

lemma cspBuilds_iff:
  "cspBuilds (finalConfig config) env kc
     \<longleftrightarrow> (\<forall>entry \<in> set (resolvedCsp config). \<not> cspEntryFails entry)"
proof -
  let ?r = "fst (buildCSPString kc (resolvedCsp config) (cspNonce (resolvedCsp config) env))"
  have "cspBuilds (finalConfig config) env kc \<longleftrightarrow> (\<forall>e. ?r \<noteq> Inl e)"
    by (auto simp: cspBuilds_def csp_finalConfig split: sum.splits)
  then show ?thesis
    by (simp add: buildCSPString_Inl_iff)
qed

lemma requestWrites_expected:
  assumes "kebab_cache_ok kc" and "\<forall>entry \<in> set (resolvedCsp config). \<not> cspEntryFails entry"
  shows "requestWrites (closureOf config node_env) env kc = expectedWrites config node_env env"
  using buildCSPString_ok [OF assms, of "cspNonce (resolvedCsp config) env"]
  by (simp add: requestWrites_def expectedWrites_def closureOf_def cspWrites_def
        permissionsPolicyWrites_def csp_finalConfig permissionsPolicy_finalConfig)

lemma middleware_succeeds:
  assumes "kebab_cache_ok kc"
      and "\<forall>entry \<in> set (resolvedCsp config). \<not> cspEntryFails entry"
      and "list_all valid_write (expectedWrites config node_env env)"
  shows "\<exists>response' kc'.
           middleware (closureOf config node_env) env kc response = (Inr response', kc')"
proof -
  from assms(3) requestWrites_expected [OF assms(1,2)] obtain h where
    h: "setStaticHeaders (headers response) (requestWrites (closureOf config node_env) env kc)
          = Inr h"
    using setStaticHeaders_Inr_iff [of "headers response" "expectedWrites config node_env env"]
    by auto
  have b: "cspBuilds (cl_finalConfig (closureOf config node_env)) env kc"
    using assms(2) by (simp add: closureOf_def cspBuilds_iff)
  from middleware_Inr_intro [OF b h] show ?thesis by blast
qed

lemma middleware_produced:
  assumes "kebab_cache_ok kc"
      and "middleware (closureOf config node_env) env kc response = (Inr response', kc')"
  shows "headers_get (headers response') m =
           (case last_write (expectedWrites config node_env env) m of
              Some v \<Rightarrow> Some (normalize_value v)
            | None \<Rightarrow> headers_get (headers response) m)"
proof -
  from middleware_Inr(1) [OF assms(2)]
  have "\<forall>entry \<in> set (resolvedCsp config). \<not> cspEntryFails entry"
    by (simp add: closureOf_def cspBuilds_iff)
  from requestWrites_expected [OF assms(1) this] middleware_headers_get [OF assms(2)]
  show ?thesis by simp
qed

section \<open>Header names\<close>

lemma lowercase_names:
  "byte_lowercase ''X-Frame-Options'' = ''x-frame-options''"
  "byte_lowercase ''X-XSS-Protection'' = ''x-xss-protection''"
  "byte_lowercase ''X-Content-Type-Options'' = ''x-content-type-options''"
  "byte_lowercase ''Referrer-Policy'' = ''referrer-policy''"
  "byte_lowercase ''X-DNS-Prefetch-Control'' = ''x-dns-prefetch-control''"
  "byte_lowercase ''Cross-Origin-Resource-Policy'' = ''cross-origin-resource-policy''"
  "byte_lowercase ''Cross-Origin-Opener-Policy'' = ''cross-origin-opener-policy''"
  "byte_lowercase ''Report-To'' = ''report-to''"
  "byte_lowercase ''Content-Security-Policy'' = ''content-security-policy''"
  "byte_lowercase ''Content-Security-Policy-Report-Only'' = ''content-security-policy-report-only''"
  "byte_lowercase ''X-Nonce'' = ''x-nonce''"
  "byte_lowercase ''Permissions-Policy'' = ''permissions-policy''"
  "byte_lowercase ''Strict-Transport-Security'' = ''strict-transport-security''"
  by (simp_all add: byte_lowercase_def to_lower_def is_upper_def)

lemma last_write_assign_value_other:
  "\<not> same_name k m \<Longrightarrow> last_write (assign_value p k f al) m = last_write al m"
  by (cases p) (simp_all add: assign_value_def last_write_update_other)


lemma last_write_staticHeaders:
  "\<forall>k \<in> set (customNames fc). \<not> same_name k m \<Longrightarrow>
     last_write (staticHeaders fc) m = last_write (builtinStaticHeaders fc) m"
  by (cases "customHeaders fc")
     (simp_all add: staticHeaders_def customNames_def last_write_obj_assign_other)

lemma customNames_finalConfig: "customNames (finalConfig config) = customNames config"
  by (simp add: customNames_def finalConfig_def DEFAULT_SECURITY_CONFIG_def spread_prop_def
        split: js_prop.splits)

lemma last_write_builtin_nosniff:
  "last_write (builtinStaticHeaders fc) ''X-Content-Type-Options'' = Some ''nosniff''"
  by (simp add: builtinStaticHeaders_def Let_def last_write_assign_value_other
        last_write_update_other last_write_update_fresh same_name_def lowercase_names)



section \<open>Names written by a request\<close>

lemma lowercase_cspHeaderName:
  "byte_lowercase (cspHeaderName c) =
     (if truthy (csp_get c ''reportOnly'') then ''content-security-policy-report-only''
      else ''content-security-policy'')"
  by (simp add: cspHeaderName_def lowercase_names)

lemma last_write_cspWrites_other:
  assumes "\<not> same_name ''Content-Security-Policy'' m"
      and "\<not> same_name ''Content-Security-Policy-Report-Only'' m"
      and "\<not> same_name ''X-Nonce'' m"
  shows "last_write (cspWrites fc env kc) m = None"
proof -
  have "\<not> same_name (cspHeaderName c) m" for c
    using assms(1,2) by (simp add: cspHeaderName_def)
  with assms(3) show ?thesis
    by (simp add: cspWrites_def split: js_prop.splits sum.splits)
qed

lemma last_write_permissionsPolicyWrites_other:
  "\<not> same_name ''Permissions-Policy'' m \<Longrightarrow> last_write (permissionsPolicyWrites fc) m = None"
  by (simp add: permissionsPolicyWrites_def split: js_prop.splits)

lemma last_write_hstsWrites:
  "last_write (hstsWrites hh) m
     = (if truthy_string hh \<and> same_name ''Strict-Transport-Security'' m then hh else None)"
  by (cases hh) (simp_all add: hstsWrites_def truthy_string_def)

lemma last_write_requestWrites_static:
  assumes "\<not> same_name ''Content-Security-Policy'' m"
      and "\<not> same_name ''Content-Security-Policy-Report-Only'' m"
      and "\<not> same_name ''X-Nonce'' m"
      and "\<not> same_name ''Permissions-Policy'' m"
      and "\<not> same_name ''Strict-Transport-Security'' m"
  shows "last_write (requestWrites cl env kc) m = last_write (cl_staticHeaders cl) m"
  using assms
  by (simp add: requestWrites_def last_write_append last_write_cspWrites_other
        last_write_permissionsPolicyWrites_other last_write_hstsWrites)

lemma normalize_value_nosniff: "normalize_value ''nosniff'' = ''nosniff''"
  by (simp add: normalize_value_def http_whitespace_def)

lemma resolvedPermissionsPolicy_default:
  "permissionsPolicy config = Absent \<or> permissionsPolicy config = Undefined \<Longrightarrow>
     resolvedPermissionsPolicy config = DEFAULT_PERMISSIONS_POLICY"
  by (auto simp: resolvedPermissionsPolicy_def finalConfig_def)

lemma resolvedHsts_default:
  "hsts config = Absent \<or> hsts config = Undefined \<Longrightarrow> resolvedHsts config = DEFAULT_HSTS"
  by (auto simp: resolvedHsts_def finalConfig_def)

section \<open>The nonce\<close>

lemma string_of_nat_nonempty: "string_of_nat n \<noteq> []"
  by (subst string_of_nat.simps) simp

lemma utf8_encode_nonempty: "s \<noteq> [] \<Longrightarrow> utf8_encode s \<noteq> []"
  by (cases s) (auto simp: utf8_encode_def Let_def)

lemma base64_encode_nonempty: "bs \<noteq> [] \<Longrightarrow> base64_encode bs \<noteq> []"
  by (induction bs rule: base64_encode.induct) auto

lemma generateNonce_nonempty: "generateNonce env \<noteq> []"
  by (simp add: generateNonce_def base64_encode_nonempty utf8_encode_nonempty
        string_of_nat_nonempty)

lemma base64_char_alphabet: "base64_char n \<in> set base64_alphabet"
proof -
  have "length base64_alphabet = 64" by (simp add: base64_alphabet_def)
  then show ?thesis
    unfolding base64_char_def by (intro nth_mem) simp
qed

lemma base64_encode_alphabet:
  "set (base64_encode bs) \<subseteq> set base64_alphabet \<union> {CHR ''=''}"
  by (induction bs rule: base64_encode.induct) (auto simp: base64_char_alphabet)

lemma base64_alphabet_plain:
  "\<forall>c \<in> set base64_alphabet \<union> {CHR ''=''}.
     \<not> http_whitespace c \<and> (of_char c :: nat) \<notin> {0, 10, 13}"
  by (simp add: base64_alphabet_def http_whitespace_def)

lemma normalize_value_plain:
  assumes "\<forall>c \<in> set s. \<not> http_whitespace c"
  shows "normalize_value s = s"
proof -
  have "dropWhile http_whitespace xs = xs" if "\<forall>c \<in> set xs. \<not> http_whitespace c" for xs
    using that by (cases xs) auto
  from this [of s] this [of "rev s"] assms show ?thesis
    by (simp add: normalize_value_def)
qed

lemma normalize_value_generateNonce: "normalize_value (generateNonce env) = generateNonce env"
proof -
  have "\<forall>c \<in> set (generateNonce env). \<not> http_whitespace c"
    using base64_encode_alphabet base64_alphabet_plain
    unfolding generateNonce_def by blast
  then show ?thesis by (rule normalize_value_plain)
qed

lemma valid_write_nonce: "valid_write (''X-Nonce'', generateNonce env)"
proof -
  have "\<forall>c \<in> set (generateNonce env). (of_char c :: nat) \<notin> {0, 10, 13}"
    using base64_encode_alphabet base64_alphabet_plain
    unfolding generateNonce_def by blast
  then have "valid_header_value (generateNonce env)"
    by (simp add: valid_header_value_def list_all_iff)
  moreover have "valid_header_name ''X-Nonce''"
    by (simp add: valid_header_name_def is_tchar_def)
  ultimately show ?thesis
    by (simp add: valid_write_def normalize_value_generateNonce)
qed

lemma last_write_requestWrites_nonce:
  assumes "cspBuilds (cl_finalConfig cl) env kc"
      and "csp (cl_finalConfig cl) = Value c"
      and "truthy (csp_get c ''useNonce'')"
  shows "last_write (requestWrites cl env kc) ''X-Nonce'' = Some (generateNonce env)"
proof -
  from assms(3) have n: "cspNonce c env = Some (generateNonce env)"
    by (simp add: cspNonce_def)
  from assms(1,2) obtain s where "fst (buildCSPString kc c (cspNonce c env)) = Inr s"
    by (auto simp: cspBuilds_def split: sum.splits)
  then have "cspWrites (cl_finalConfig cl) env kc
               = [(cspHeaderName c, s), (''X-Nonce'', generateNonce env)]"
    by (simp add: cspWrites_def assms(2) n truthy_string_def generateNonce_nonempty)
  then show ?thesis
    by (simp add: requestWrites_def last_write_append last_write_hstsWrites
          last_write_permissionsPolicyWrites_other same_name_def lowercase_names)
qed

lemma generateNonce_sample:
  "generateNonce \<lparr>now = 1762180000000, random36 = ''0.k3j9x2m4q7''\<rparr>
     = ''MTc2MjE4MDAwMDAwMHgybTRxNw==''"
  by (simp add: generateNonce_def string_of_nat.simps digit_char_def slice_last_def
        utf8_encode_def base64_char_def base64_alphabet_def)

section \<open>Requests of the default policy sections\<close>

lemma valid_expectedWrites_iff:
  "list_all valid_write (expectedWrites config node_env env) \<longleftrightarrow>
     list_all valid_write (staticHeaders (finalConfig config))
     \<and> valid_write (cspHeaderName (resolvedCsp config),
                     cspHeaderValue (resolvedCsp config) (cspNonce (resolvedCsp config) env))
     \<and> valid_write (''Permissions-Policy'',
                     buildPermissionsPolicyString (resolvedPermissionsPolicy config))
     \<and> list_all valid_write (hstsWrites (hstsHeader node_env (finalConfig config)))"
  using valid_write_nonce [of env]
  by (auto simp: expectedWrites_def cspNonce_def truthy_string_def)

lemma default_csp_nofail: "\<forall>entry \<in> set DEFAULT_CSP_CONFIG. \<not> cspEntryFails entry"
  by (simp add: DEFAULT_CSP_CONFIG_def cspEntryFails_def)

lemma default_csp_write:
  "cspHeaderName DEFAULT_CSP_CONFIG = ''Content-Security-Policy''"
  "cspNonce DEFAULT_CSP_CONFIG env = None"
  "cspHeaderValue DEFAULT_CSP_CONFIG None =
     ''default-src '' @ squote ''self''
       @ ''; script-src '' @ squote ''self'' @ '' '' @ squote ''unsafe-inline''
       @ ''; style-src '' @ squote ''self'' @ '' '' @ squote ''unsafe-inline''
       @ ''; img-src '' @ squote ''self'' @ '' data: blob:''
       @ ''; font-src '' @ squote ''self''
       @ ''; connect-src '' @ squote ''self''
       @ ''; frame-src '' @ squote ''self''
       @ ''; object-src '' @ squote ''none''
       @ ''; base-uri '' @ squote ''self''"
  by (simp_all add: cspHeaderName_def cspHeaderValue_def cspNonce_def csp_get_def
        cspDirectives_def cspDirective_def skipsEntry_def noncedEntry_def renderDirective_def
        kebab_def DEFAULT_CSP_CONFIG_def permission_SELF_def
        permission_UNSAFE_INLINE_def permission_DATA_def permission_BLOB_def
        permission_NONE_def squote_def truthy_string_def is_upper_def to_lower_def)

lemma default_csp_valid:
  "valid_write (cspHeaderName DEFAULT_CSP_CONFIG,
                cspHeaderValue DEFAULT_CSP_CONFIG (cspNonce DEFAULT_CSP_CONFIG env))"
  unfolding default_csp_write
  by (simp add: valid_write_def valid_header_name_def valid_header_value_def is_tchar_def
        normalize_value_def http_whitespace_def squote_def)

lemma default_permissions_policy_write:
  "buildPermissionsPolicyString DEFAULT_PERMISSIONS_POLICY
     = ''camera=(), microphone=(), geolocation=(), interest-cohort=()''"
  by (simp add: buildPermissionsPolicyString_def DEFAULT_PERMISSIONS_POLICY_def)

lemma default_permissions_policy_valid:
  "valid_write (''Permissions-Policy'', buildPermissionsPolicyString DEFAULT_PERMISSIONS_POLICY)"
  unfolding default_permissions_policy_write
  by (simp add: valid_write_def valid_header_name_def valid_header_value_def is_tchar_def
        normalize_value_def http_whitespace_def)

lemma default_hstsHeader:
  "hsts fc = Value DEFAULT_HSTS \<Longrightarrow>
     hstsHeader node_env fc
       = (if isProduction node_env then Some ''max-age=15552000; includeSubDomains; preload''
          else None)"
  by (simp add: hstsHeader_def DEFAULT_HSTS_def truthy_flag_def string_of_int_def
        string_of_nat.simps digit_char_def)

lemma default_hsts_valid:
  "hsts fc = Value DEFAULT_HSTS \<Longrightarrow> list_all valid_write (hstsWrites (hstsHeader node_env fc))"
  by (simp add: default_hstsHeader hstsWrites_def truthy_string_def valid_write_def
        valid_header_name_def valid_header_value_def is_tchar_def normalize_value_def
        http_whitespace_def)

text \<open>
  A configuration that sets neither \<^verbatim>\<open>csp\<close> nor \<^verbatim>\<open>permissionsPolicy\<close> nor \<^verbatim>\<open>hsts\<close>
  and whose static headers the \<^verbatim>\<open>Headers\<close> class accepts: every request yields a response.
\<close>

lemma default_sections_succeed:
  assumes "csp config = Absent" "permissionsPolicy config = Absent" "hsts config = Absent"
      and "list_all valid_write (staticHeaders (finalConfig config))"
      and "kebab_cache_ok kc"
  shows "\<exists>response' kc'.
           middleware (closureOf config node_env) env kc response = (Inr response', kc')"
proof -
  have c: "resolvedCsp config = DEFAULT_CSP_CONFIG"
    using assms(1) by (simp add: resolvedCsp_default)
  have p: "resolvedPermissionsPolicy config = DEFAULT_PERMISSIONS_POLICY"
    using assms(2) by (simp add: resolvedPermissionsPolicy_default)
  have h: "hsts (finalConfig config) = Value DEFAULT_HSTS"
    using assms(3) by (simp add: hsts_finalConfig resolvedHsts_default)
  have "list_all valid_write (expectedWrites config node_env env)"
    using assms(4)
    by (simp add: valid_expectedWrites_iff c p default_csp_valid
          default_permissions_policy_valid default_hsts_valid [OF h])
  from middleware_succeeds [OF assms(5) _ this] show ?thesis
    by (simp add: c default_csp_nofail)
qed

section \<open>Strict-Transport-Security\<close>




section \<open>The produced response\<close>





section \<open>Directives of the CSP header\<close>





lemma last_write_expectedWrites_csp:
  "last_write (expectedWrites config node_env env) (cspHeaderName (resolvedCsp config))
     = Some (cspHeaderValue (resolvedCsp config) (cspNonce (resolvedCsp config) env))"
  by (simp add: expectedWrites_def last_write_append last_write_hstsWrites same_name_def
        lowercase_names lowercase_cspHeaderName)


section \<open>Claims\<close>

subsection \<open>Claim C1\<close>

text \<open>
  C1, as stated, fails: a \<^verbatim>\<open>customHeaders\<close> map with the key
  \<^verbatim>\<open>X-Content-Type-Options\<close> is assigned to the static headers after \<^verbatim>\<open>nosniff\<close>, and the
  response carries the custom value.
\<close>

theorem nosniff_custom_counterexample:
  "tirneHelmet (empty_config\<lparr>customHeaders := Value [(''X-Content-Type-Options'', ''sniff'')]\<rparr>)
      None
     = Inr (closureOf
              (empty_config\<lparr>customHeaders := Value [(''X-Content-Type-Options'', ''sniff'')]\<rparr>)
              None)
   \<and> producedHeader
       (middleware
          (closureOf
             (empty_config\<lparr>customHeaders := Value [(''X-Content-Type-Options'', ''sniff'')]\<rparr>)
             None)
          \<lparr>now = 1762180000000, random36 = ''0.k3j9x2m4q7''\<rparr> Map.empty
          \<lparr>status = 200, statusText = ''OK'', body = ''hello'',
           headers = [(''content-type'', ''text/plain'')]\<rparr>)
       ''X-Content-Type-Options''
     = Some (Some ''sniff'')"
proof -
  let ?cfg = "empty_config\<lparr>customHeaders := Value [(''X-Content-Type-Options'', ''sniff'')]\<rparr>"
  let ?env = "\<lparr>now = 1762180000000, random36 = ''0.k3j9x2m4q7''\<rparr>"
  let ?resp = "\<lparr>status = 200, statusText = ''OK'', body = ''hello'',
                 headers = [(''content-type'', ''text/plain'')]\<rparr>"
  have accepted: "tirneHelmet ?cfg None = Inr (closureOf ?cfg None)"
    by (simp add: tirneHelmet_Inr_iff validateConfig_def empty_config_def)
  have static: "staticHeaders (finalConfig ?cfg) =
     [(''X-Frame-Options'', ''DENY''),
      (''X-XSS-Protection'', ''1; mode=block''),
      (''X-Content-Type-Options'', ''sniff''),
      (''Referrer-Policy'', ''strict-origin-when-cross-origin''),
      (''X-DNS-Prefetch-Control'', ''off''),
      (''Cross-Origin-Resource-Policy'', ''same-origin''),
      (''Cross-Origin-Opener-Policy'', ''same-origin'')]"
    by (simp add: staticHeaders_def builtinStaticHeaders_def assign_value_def finalConfig_def
          empty_config_def DEFAULT_SECURITY_CONFIG_def spread_prop_def truthy_flag_def Let_def
          obj_assign_def)
  have valid: "list_all valid_write (staticHeaders (finalConfig ?cfg))"
    unfolding static
    by (simp add: valid_write_def valid_header_name_def valid_header_value_def is_tchar_def
          normalize_value_def http_whitespace_def)
  have "\<exists>r' kc'. middleware (closureOf ?cfg None) ?env Map.empty ?resp = (Inr r', kc')"
    by (rule default_sections_succeed [OF _ _ _ valid kebab_cache_ok_empty])
       (simp_all add: empty_config_def)
  then obtain r' kc' where
    m: "middleware (closureOf ?cfg None) ?env Map.empty ?resp = (Inr r', kc')"
    by blast
  have lw: "last_write (requestWrites (closureOf ?cfg None) ?env Map.empty)
              ''X-Content-Type-Options'' = Some ''sniff''"
    by (simp add: last_write_requestWrites_static closureOf_def static same_name_def
          lowercase_names)
  from middleware_headers_get [OF m, of "''X-Content-Type-Options''"] lw
  have "headers_get (headers r') ''X-Content-Type-Options'' = Some ''sniff''"
    by (simp add: normalize_value_def http_whitespace_def)
  with accepted m show ?thesis
    by (simp add: producedHeader_def)
qed

text \<open>
  C1, amended: for every configuration that the constructor accepts and whose
  \<^verbatim>\<open>customHeaders\<close> map has no key equal to \<^verbatim>\<open>X-Content-Type-Options\<close> up to letter
  case, every response the middleware produces carries \<^verbatim>\<open>X-Content-Type-Options\<close> with
  the value \<^verbatim>\<open>nosniff\<close>, whatever the handler's response held under that name.
\<close>

theorem nosniff_unless_custom:
  assumes "tirneHelmet config node_env = Inr cl"
      and "\<forall>k \<in> set (customNames config). \<not> same_name k ''X-Content-Type-Options''"
      and "middleware cl env kc response = (Inr response', kc')"
  shows "headers_get (headers response') ''X-Content-Type-Options'' = Some ''nosniff''"
proof -
  from assms(1) have cl: "cl = closureOf config node_env"
    by (simp add: tirneHelmet_Inr_iff)
  have "last_write (requestWrites cl env kc) ''X-Content-Type-Options''
          = last_write (staticHeaders (finalConfig config)) ''X-Content-Type-Options''"
    by (simp add: last_write_requestWrites_static cl closureOf_def same_name_def lowercase_names)
  also have "\<dots> = Some ''nosniff''"
    using assms(2)
    by (simp add: last_write_staticHeaders customNames_finalConfig last_write_builtin_nosniff)
  finally show ?thesis
    using middleware_headers_get [OF assms(3), of "''X-Content-Type-Options''"]
    by (simp add: normalize_value_nosniff)
qed

text \<open>
  The configuration of the repository's test of custom headers, on a handler response
  that already carries \<^verbatim>\<open>x-content-type-options\<close>.
\<close>

theorem nosniff_unless_custom_witness:
  "producedHeader
     (middleware
        (closureOf
           (empty_config\<lparr>customHeaders := Value [(''X-Custom-Header'', ''custom-value''),
                                                 (''X-Another-Header'', ''another-value'')]\<rparr>)
           None)
        \<lparr>now = 1762180000000, random36 = ''0.k3j9x2m4q7''\<rparr> Map.empty
        \<lparr>status = 200, statusText = ''OK'', body = ''hello'',
         headers = [(''x-content-type-options'', ''handler'')]\<rparr>)
     ''X-Content-Type-Options''
     = Some (Some ''nosniff'')"
proof -
  let ?cfg = "empty_config\<lparr>customHeaders := Value [(''X-Custom-Header'', ''custom-value''),
                                                 (''X-Another-Header'', ''another-value'')]\<rparr>"
  let ?env = "\<lparr>now = 1762180000000, random36 = ''0.k3j9x2m4q7''\<rparr>"
  let ?resp = "\<lparr>status = 200, statusText = ''OK'', body = ''hello'',
                 headers = [(''x-content-type-options'', ''handler'')]\<rparr>"
  have accepted: "tirneHelmet ?cfg None = Inr (closureOf ?cfg None)"
    by (simp add: tirneHelmet_Inr_iff validateConfig_def empty_config_def)
  have names: "\<forall>k \<in> set (customNames ?cfg). \<not> same_name k ''X-Content-Type-Options''"
    by (simp add: customNames_def same_name_def byte_lowercase_def to_lower_def is_upper_def)
  have static: "staticHeaders (finalConfig ?cfg) =
     [(''X-Frame-Options'', ''DENY''),
      (''X-XSS-Protection'', ''1; mode=block''),
      (''X-Content-Type-Options'', ''nosniff''),
      (''Referrer-Policy'', ''strict-origin-when-cross-origin''),
      (''X-DNS-Prefetch-Control'', ''off''),
      (''Cross-Origin-Resource-Policy'', ''same-origin''),
      (''Cross-Origin-Opener-Policy'', ''same-origin''),
      (''X-Custom-Header'', ''custom-value''),
      (''X-Another-Header'', ''another-value'')]"
    by (simp add: staticHeaders_def builtinStaticHeaders_def assign_value_def finalConfig_def
          empty_config_def DEFAULT_SECURITY_CONFIG_def spread_prop_def truthy_flag_def Let_def
          obj_assign_def)
  have valid: "list_all valid_write (staticHeaders (finalConfig ?cfg))"
    unfolding static
    by (simp add: valid_write_def valid_header_name_def valid_header_value_def is_tchar_def
          normalize_value_def http_whitespace_def)
  have "\<exists>r' kc'. middleware (closureOf ?cfg None) ?env Map.empty ?resp = (Inr r', kc')"
    by (rule default_sections_succeed [OF _ _ _ valid kebab_cache_ok_empty])
       (simp_all add: empty_config_def)
  then obtain r' kc' where
    m: "middleware (closureOf ?cfg None) ?env Map.empty ?resp = (Inr r', kc')"
    by blast
  from nosniff_unless_custom [OF accepted names m] m show ?thesis
    by (simp add: producedHeader_def)
qed

subsection \<open>Claim C2\<close>

text \<open>
  C2, as stated, fails: with no \<^verbatim>\<open>csp\<close> in the user configuration the resolved
  \<^verbatim>\<open>imgSrc\<close> list is \<^verbatim>\<open>'self'\<close>, \<^verbatim>\<open>data:\<close>, \<^verbatim>\<open>blob:\<close>, not the self-origin token alone.
\<close>

theorem default_img_src_counterexample:
  "csp_get (resolvedCsp empty_config) ''imgSrc'' = Sources [squote ''self'', ''data:'', ''blob:'']
   \<and> csp_get (resolvedCsp empty_config) ''imgSrc'' \<noteq> Sources [squote ''self'']"
  by (simp add: resolvedCsp_def finalConfig_def empty_config_def csp_get_def
        DEFAULT_CSP_CONFIG_def permission_SELF_def permission_DATA_def permission_BLOB_def)

text \<open>
  C2, amended: when the user configuration omits \<^verbatim>\<open>csp\<close> (the key is missing or holds
  \<^verbatim>\<open>undefined\<close>), the resolved CSP is the built-in default, whose \<^verbatim>\<open>imgSrc\<close> list is
  \<^verbatim>\<open>'self'\<close>, \<^verbatim>\<open>data:\<close>, \<^verbatim>\<open>blob:\<close>; when the user's \<^verbatim>\<open>csp\<close> object omits a key, the
  resolved CSP has the default's value for that key.
\<close>

theorem default_csp_resolved:
  "(csp config = Absent \<or> csp config = Undefined \<longrightarrow>
      resolvedCsp config =
        [(''defaultSrc'', Sources [squote ''self'']),
         (''scriptSrc'', Sources [squote ''self'', squote ''unsafe-inline'']),
         (''styleSrc'', Sources [squote ''self'', squote ''unsafe-inline'']),
         (''imgSrc'', Sources [squote ''self'', ''data:'', ''blob:'']),
         (''fontSrc'', Sources [squote ''self'']),
         (''connectSrc'', Sources [squote ''self'']),
         (''frameSrc'', Sources [squote ''self'']),
         (''objectSrc'', Sources [squote ''none'']),
         (''baseUri'', Sources [squote ''self''])])
   \<and> (\<forall>c k. csp config = Value c \<longrightarrow> k \<notin> fst ` set c \<longrightarrow>
          csp_get (resolvedCsp config) k =
            csp_get
              [(''defaultSrc'', Sources [squote ''self'']),
               (''scriptSrc'', Sources [squote ''self'', squote ''unsafe-inline'']),
               (''styleSrc'', Sources [squote ''self'', squote ''unsafe-inline'']),
               (''imgSrc'', Sources [squote ''self'', ''data:'', ''blob:'']),
               (''fontSrc'', Sources [squote ''self'']),
               (''connectSrc'', Sources [squote ''self'']),
               (''frameSrc'', Sources [squote ''self'']),
               (''objectSrc'', Sources [squote ''none'']),
               (''baseUri'', Sources [squote ''self''])] k)"
proof -
  have lit: "DEFAULT_CSP_CONFIG =
        [(''defaultSrc'', Sources [squote ''self'']),
         (''scriptSrc'', Sources [squote ''self'', squote ''unsafe-inline'']),
         (''styleSrc'', Sources [squote ''self'', squote ''unsafe-inline'']),
         (''imgSrc'', Sources [squote ''self'', ''data:'', ''blob:'']),
         (''fontSrc'', Sources [squote ''self'']),
         (''connectSrc'', Sources [squote ''self'']),
         (''frameSrc'', Sources [squote ''self'']),
         (''objectSrc'', Sources [squote ''none'']),
         (''baseUri'', Sources [squote ''self''])]"
    by (simp add: DEFAULT_CSP_CONFIG_def permission_SELF_def permission_UNSAFE_INLINE_def
          permission_DATA_def permission_BLOB_def permission_NONE_def)
  have a: "csp config = Absent \<or> csp config = Undefined \<longrightarrow> resolvedCsp config = DEFAULT_CSP_CONFIG"
    using resolvedCsp_default by blast
  have b: "csp_get (resolvedCsp config) k = csp_get DEFAULT_CSP_CONFIG k"
    if "csp config = Value c" "k \<notin> fst ` set c" for c k
    using that
    by (simp add: resolvedCsp_Value csp_get_def map_of_obj_assign map_of_rev_None)
  show ?thesis
    using a b unfolding lit by blast
qed

text \<open>
  The defaults at the empty configuration, and at a configuration that sets
  \<^verbatim>\<open>imgSrc\<close> only: \<^verbatim>\<open>scriptSrc\<close> keeps its default.
\<close>

theorem default_csp_resolved_witness:
  "resolvedCsp empty_config =
        [(''defaultSrc'', Sources [squote ''self'']),
         (''scriptSrc'', Sources [squote ''self'', squote ''unsafe-inline'']),
         (''styleSrc'', Sources [squote ''self'', squote ''unsafe-inline'']),
         (''imgSrc'', Sources [squote ''self'', ''data:'', ''blob:'']),
         (''fontSrc'', Sources [squote ''self'']),
         (''connectSrc'', Sources [squote ''self'']),
         (''frameSrc'', Sources [squote ''self'']),
         (''objectSrc'', Sources [squote ''none'']),
         (''baseUri'', Sources [squote ''self''])]
   \<and> csp_get (resolvedCsp (empty_config\<lparr>csp := Value [(''imgSrc'', Sources [''https:''])]\<rparr>))
         ''scriptSrc'' = Sources [squote ''self'', squote ''unsafe-inline'']
   \<and> csp_get (resolvedCsp (empty_config\<lparr>csp := Value [(''imgSrc'', Sources [''https:''])]\<rparr>))
         ''imgSrc'' = Sources [''https:'']"
proof -
  have 1: "csp empty_config = Absent" by (simp add: empty_config_def)
  have 2: "csp (empty_config\<lparr>csp := Value [(''imgSrc'', Sources [''https:''])]\<rparr>)
             = Value [(''imgSrc'', Sources [''https:''])]" by simp
  have 3: "''scriptSrc'' \<notin> fst ` set [(''imgSrc'', Sources [''https:''])]" by simp
  have 4: "csp_get (resolvedCsp (empty_config\<lparr>csp := Value [(''imgSrc'', Sources [''https:''])]\<rparr>))
         ''imgSrc'' = Sources [''https:'']"
    by (simp add: resolvedCsp_Value [OF 2] csp_get_def map_of_obj_assign)
  show ?thesis
    using default_csp_resolved [of empty_config] 1
      default_csp_resolved [of "empty_config\<lparr>csp := Value [(''imgSrc'', Sources [''https:''])]\<rparr>"] 2 3 4
    by (simp add: csp_get_def)
qed

subsection \<open>Claim C3\<close>

text \<open>
  C3, at the failing input \<^verbatim>\<open>tirneHelmet({ csp: { reportUri: "/csp-report" } })\<close>: the
  configuration is accepted at construction, and on every request (any clock, random
  number, memo table and handler response) \<^verbatim>\<open>buildCSPString\<close> throws the TypeError of
  \<^verbatim>\<open>values.join\<close> on the string, so the middleware produces no response.
\<close>

theorem reportUri_request_TypeError:
  "tirneHelmet (empty_config\<lparr>csp := Value [(''reportUri'', Text ''/csp-report'')]\<rparr>) node_env
     = Inr (closureOf (empty_config\<lparr>csp := Value [(''reportUri'', Text ''/csp-report'')]\<rparr>)
              node_env)
   \<and> fst (buildCSPString kc
            (resolvedCsp (empty_config\<lparr>csp := Value [(''reportUri'', Text ''/csp-report'')]\<rparr>))
            nonce)
     = Inl (TypeError ''values.join is not a function'')
   \<and> fst (middleware
            (closureOf (empty_config\<lparr>csp := Value [(''reportUri'', Text ''/csp-report'')]\<rparr>)
               node_env)
            env kc response)
     = Inl (TypeError ''values.join is not a function'')"
proof -
  let ?cfg = "empty_config\<lparr>csp := Value [(''reportUri'', Text ''/csp-report'')]\<rparr>"
  let ?err = "TypeError ''values.join is not a function''"
  have accepted: "tirneHelmet ?cfg node_env = Inr (closureOf ?cfg node_env)"
    by (simp add: tirneHelmet_Inr_iff validateConfig_def empty_config_def)
  have entry: "(''reportUri'', Text ''/csp-report'') \<in> set (resolvedCsp ?cfg)"
    by (simp add: resolvedCsp_Value obj_assign_def DEFAULT_CSP_CONFIG_def)
  have fails: "cspEntryFails (''reportUri'', Text ''/csp-report'')"
    by (simp add: cspEntryFails_def skipsEntry_def)
  have build: "fst (buildCSPString kc (resolvedCsp ?cfg) n) = Inl ?err" for n
    using entry fails by (auto simp: buildCSPString_Inl_iff)
  obtain h1 where h1:
    "setStaticHeaders (headers response) (staticHeaders (finalConfig ?cfg)) = Inr h1"
    using setStaticHeaders_Inr_iff [of "headers response" "staticHeaders (finalConfig ?cfg)"]
      valid_default_static
    by (auto simp: staticHeaders_empty_config_csp)
  obtain kc1 where b: "buildCSPString kc (resolvedCsp ?cfg) (cspNonce (resolvedCsp ?cfg) env)
                         = (Inl ?err, kc1)"
    using build [of "cspNonce (resolvedCsp ?cfg) env"]
    by (cases "buildCSPString kc (resolvedCsp ?cfg) (cspNonce (resolvedCsp ?cfg) env)") auto
  have c: "setCSPHeaders (finalConfig ?cfg) env kc h1 = (Inl ?err, kc1)"
    by (simp add: setCSPHeaders_unfold csp_finalConfig b)
  have "fst (middleware (closureOf ?cfg node_env) env kc response) = Inl ?err"
    by (simp add: middleware_def closureOf_def h1 c)
  with accepted build show ?thesis by simp
qed

subsection \<open>Claim C4\<close>

text \<open>
  C4: constructing the middleware throws exactly when \<^verbatim>\<open>hsts.maxAge\<close> holds a negative
  number, or a report group has a negative \<^verbatim>\<open>maxAge\<close> or no endpoint; what it throws
  is a validation error (\<^verbatim>\<open>new Error\<close> of \<^verbatim>\<open>validateConfig\<close>); and no request
  processed by a middleware ends with such an error, for any closure, environment,
  memo table and response.
\<close>

theorem validation_error_iff:
  "((\<exists>msg. tirneHelmet config node_env = Inl (Error msg))
      \<longleftrightarrow> hstsMaxAgeNegative config
           \<or> (\<exists>r \<in> set (reportGroups config). rt_maxAge r < 0 \<or> rt_endpoints r = []))
   \<and> ((\<exists>e. tirneHelmet config node_env = Inl e)
      \<longleftrightarrow> (\<exists>msg. tirneHelmet config node_env = Inl (Error msg)))
   \<and> (\<forall>cl env kc (response :: 'b response) msg.
         fst (middleware cl env kc response) \<noteq> Inl (Error msg))"
proof -
  have only: "\<exists>msg. e = Error msg" if "tirneHelmet config node_env = Inl e" for e
    using that validateConfig_Error [of config e]
    by (cases e) (auto simp: tirneHelmet_Inl is_TypeError_def)
  have a: "(\<exists>e. tirneHelmet config node_env = Inl e)
             \<longleftrightarrow> (\<exists>msg. tirneHelmet config node_env = Inl (Error msg))"
    using only by blast
  have b: "(\<exists>e. tirneHelmet config node_env = Inl e)
             \<longleftrightarrow> hstsMaxAgeNegative config
                  \<or> (\<exists>r \<in> set (reportGroups config). rt_maxAge r < 0 \<or> rt_endpoints r = [])"
    using validateConfig_Inl_iff [of config] by (simp add: tirneHelmet_Inl)
  have c: "fst (middleware cl env kc response) \<noteq> Inl (Error msg)"
    for cl env kc msg and response :: "'b response"
  proof
    assume "fst (middleware cl env kc response) = Inl (Error msg)"
    then obtain kc' where "middleware cl env kc response = (Inl (Error msg), kc')"
      by (cases "middleware cl env kc response") auto
    from middleware_TypeError [OF this] show False
      by (simp add: is_TypeError_def)
  qed
  show ?thesis
    using a b c by blast
qed

text \<open>
  The two configurations of the specification's examples are refused, and a
  configuration with one well-formed report group is accepted.
\<close>

theorem validation_error_iff_witness:
  "tirneHelmet
      (empty_config\<lparr>hsts := Value \<lparr>maxAge = Value (- 1), includeSubDomains = Absent,
                                   preload = Absent\<rparr>\<rparr>) None
     = Inl (Error ''HSTS maxAge must be a positive number'')
   \<and> tirneHelmet
      (empty_config\<lparr>reportTo := Value [\<lparr>rt_group = ''g'', rt_maxAge = 10, rt_endpoints = [],
                                         rt_includeSubdomains = None\<rparr>]\<rparr>) None
     = Inl (Error ''Report-To must have at least one endpoint'')
   \<and> (\<exists>cl. tirneHelmet
      (empty_config\<lparr>reportTo := Value [\<lparr>rt_group = ''g'', rt_maxAge = 10,
                                         rt_endpoints = [JObj [(''url'', JStr ''https://r.example/'')]],
                                         rt_includeSubdomains = None\<rparr>]\<rparr>) None
     = Inr cl)"
proof -
  have 1: "hstsMaxAgeNegative
      (empty_config\<lparr>hsts := Value \<lparr>maxAge = Value (- 1), includeSubDomains = Absent,
                                   preload = Absent\<rparr>\<rparr>)"
    by (simp add: hstsMaxAgeNegative_def)
  have 2: "\<exists>r \<in> set (reportGroups
      (empty_config\<lparr>reportTo := Value [\<lparr>rt_group = ''g'', rt_maxAge = 10, rt_endpoints = [],
                                         rt_includeSubdomains = None\<rparr>]\<rparr>)).
        rt_maxAge r < 0 \<or> rt_endpoints r = []"
    by (simp add: reportGroups_def)
  have 3: "\<not> (hstsMaxAgeNegative
      (empty_config\<lparr>reportTo := Value [\<lparr>rt_group = ''g'', rt_maxAge = 10,
                                         rt_endpoints = [JObj [(''url'', JStr ''https://r.example/'')]],
                                         rt_includeSubdomains = None\<rparr>]\<rparr>)
        \<or> (\<exists>r \<in> set (reportGroups
      (empty_config\<lparr>reportTo := Value [\<lparr>rt_group = ''g'', rt_maxAge = 10,
                                         rt_endpoints = [JObj [(''url'', JStr ''https://r.example/'')]],
                                         rt_includeSubdomains = None\<rparr>]\<rparr>)).
        rt_maxAge r < 0 \<or> rt_endpoints r = []))"
    by (simp add: reportGroups_def hstsMaxAgeNegative_def empty_config_def)
  from validation_error_iff
    [of "empty_config\<lparr>hsts := Value \<lparr>maxAge = Value (- 1), includeSubDomains = Absent,
                                   preload = Absent\<rparr>\<rparr>" None] 1
  have a: "tirneHelmet
      (empty_config\<lparr>hsts := Value \<lparr>maxAge = Value (- 1), includeSubDomains = Absent,
                                   preload = Absent\<rparr>\<rparr>) None
     = Inl (Error ''HSTS maxAge must be a positive number'')"
    by (simp add: tirneHelmet_def validateConfig_def)
  from validation_error_iff
    [of "empty_config\<lparr>reportTo := Value [\<lparr>rt_group = ''g'', rt_maxAge = 10, rt_endpoints = [],
                                         rt_includeSubdomains = None\<rparr>]\<rparr>" None] 2
  have b: "tirneHelmet
      (empty_config\<lparr>reportTo := Value [\<lparr>rt_group = ''g'', rt_maxAge = 10, rt_endpoints = [],
                                         rt_includeSubdomains = None\<rparr>]\<rparr>) None
     = Inl (Error ''Report-To must have at least one endpoint'')"
    by (simp add: tirneHelmet_def validateConfig_def empty_config_def)
  from validation_error_iff
    [of "empty_config\<lparr>reportTo := Value [\<lparr>rt_group = ''g'', rt_maxAge = 10,
                                         rt_endpoints = [JObj [(''url'', JStr ''https://r.example/'')]],
                                         rt_includeSubdomains = None\<rparr>]\<rparr>" None] 3
  have c: "\<exists>cl. tirneHelmet
      (empty_config\<lparr>reportTo := Value [\<lparr>rt_group = ''g'', rt_maxAge = 10,
                                         rt_endpoints = [JObj [(''url'', JStr ''https://r.example/'')]],
                                         rt_includeSubdomains = None\<rparr>]\<rparr>) None
     = Inr cl"
    by (metis sum.exhaust)
  show ?thesis using a b c by blast
qed

subsection \<open>Claim C5\<close>




subsection \<open>Claim C6\<close>



subsection \<open>Claim C7\<close>

text \<open>
  C7, as stated, fails: the loop body appends the nonce token to the joined sources
  without looking at them. When the \<^verbatim>\<open>scriptSrc\<close> list of the configuration is the very
  token that the request generates (\<^verbatim>\<open>Date.now()\<close> is 1762180000000 and
  \<^verbatim>\<open>Math.random().toString(36)\<close> ends with \<^verbatim>\<open>x2m4q7\<close>), the \<^verbatim>\<open>script-src\<close> directive of the
  header holds that token twice.
\<close>

theorem nonce_token_twice_counterexample:
  "tirneHelmet
     (empty_config\<lparr>csp := Value [(''scriptSrc'',
                                    Sources [squote ''nonce-MTc2MjE4MDAwMDAwMHgybTRxNw=='']),
                                 (''useNonce'', Flag True)]\<rparr>) None
     = Inr (closureOf
         (empty_config\<lparr>csp := Value [(''scriptSrc'',
                                        Sources [squote ''nonce-MTc2MjE4MDAwMDAwMHgybTRxNw=='']),
                                     (''useNonce'', Flag True)]\<rparr>) None)
   \<and> producedHeader
     (middleware
        (closureOf
           (empty_config\<lparr>csp := Value [(''scriptSrc'',
                                          Sources [squote ''nonce-MTc2MjE4MDAwMDAwMHgybTRxNw=='']),
                                       (''useNonce'', Flag True)]\<rparr>) None)
        \<lparr>now = 1762180000000, random36 = ''0.k3j9x2m4q7''\<rparr> Map.empty
        \<lparr>status = 200, statusText = ''OK'', body = ''hello'',
         headers = [(''content-type'', ''text/plain'')]\<rparr>)
     ''X-Nonce''
     = Some (Some ''MTc2MjE4MDAwMDAwMHgybTRxNw=='')
   \<and> producedHeader
     (middleware
        (closureOf
           (empty_config\<lparr>csp := Value [(''scriptSrc'',
                                          Sources [squote ''nonce-MTc2MjE4MDAwMDAwMHgybTRxNw=='']),
                                       (''useNonce'', Flag True)]\<rparr>) None)
        \<lparr>now = 1762180000000, random36 = ''0.k3j9x2m4q7''\<rparr> Map.empty
        \<lparr>status = 200, statusText = ''OK'', body = ''hello'',
         headers = [(''content-type'', ''text/plain'')]\<rparr>)
     ''Content-Security-Policy''
     = Some (Some (''default-src '' @ squote ''self''
          @ ''; script-src '' @ squote ''nonce-MTc2MjE4MDAwMDAwMHgybTRxNw==''
          @ '' '' @ squote ''nonce-MTc2MjE4MDAwMDAwMHgybTRxNw==''
          @ ''; style-src '' @ squote ''self'' @ '' '' @ squote ''unsafe-inline''
          @ '' '' @ squote ''nonce-MTc2MjE4MDAwMDAwMHgybTRxNw==''
          @ ''; img-src '' @ squote ''self'' @ '' data: blob:''
          @ ''; font-src '' @ squote ''self''
          @ ''; connect-src '' @ squote ''self''
          @ ''; frame-src '' @ squote ''self''
          @ ''; object-src '' @ squote ''none''
          @ ''; base-uri '' @ squote ''self''))"
proof -
  let ?cfg = "empty_config\<lparr>csp := Value [(''scriptSrc'',
                                          Sources [squote ''nonce-MTc2MjE4MDAwMDAwMHgybTRxNw=='']),
                                       (''useNonce'', Flag True)]\<rparr>"
  let ?env = "\<lparr>now = 1762180000000, random36 = ''0.k3j9x2m4q7''\<rparr>"
  let ?resp = "\<lparr>status = 200, statusText = ''OK'', body = ''hello'',
                 headers = [(''content-type'', ''text/plain'')]\<rparr>"
  let ?expected = "''default-src '' @ squote ''self''
          @ ''; script-src '' @ squote ''nonce-MTc2MjE4MDAwMDAwMHgybTRxNw==''
          @ '' '' @ squote ''nonce-MTc2MjE4MDAwMDAwMHgybTRxNw==''
          @ ''; style-src '' @ squote ''self'' @ '' '' @ squote ''unsafe-inline''
          @ '' '' @ squote ''nonce-MTc2MjE4MDAwMDAwMHgybTRxNw==''
          @ ''; img-src '' @ squote ''self'' @ '' data: blob:''
          @ ''; font-src '' @ squote ''self''
          @ ''; connect-src '' @ squote ''self''
          @ ''; frame-src '' @ squote ''self''
          @ ''; object-src '' @ squote ''none''
          @ ''; base-uri '' @ squote ''self''"
  have accepted: "tirneHelmet ?cfg None = Inr (closureOf ?cfg None)"
    by (simp add: tirneHelmet_Inr_iff validateConfig_def empty_config_def)
  have c: "resolvedCsp ?cfg =
      [(''defaultSrc'', Sources [squote ''self'']),
       (''scriptSrc'', Sources [squote ''nonce-MTc2MjE4MDAwMDAwMHgybTRxNw=='']),
       (''styleSrc'', Sources [squote ''self'', squote ''unsafe-inline'']),
       (''imgSrc'', Sources [squote ''self'', ''data:'', ''blob:'']),
       (''fontSrc'', Sources [squote ''self'']),
       (''connectSrc'', Sources [squote ''self'']),
       (''frameSrc'', Sources [squote ''self'']),
       (''objectSrc'', Sources [squote ''none'']),
       (''baseUri'', Sources [squote ''self'']),
       (''useNonce'', Flag True)]"
    by (simp add: resolvedCsp_Value obj_assign_def DEFAULT_CSP_CONFIG_def permission_SELF_def
          permission_UNSAFE_INLINE_def permission_DATA_def permission_BLOB_def
          permission_NONE_def)
  have nonce: "truthy (csp_get (resolvedCsp ?cfg) ''useNonce'')"
    by (simp add: c csp_get_def)
  have n: "cspNonce (resolvedCsp ?cfg) ?env = Some ''MTc2MjE4MDAwMDAwMHgybTRxNw==''"
    by (simp only: cspNonce_def nonce if_True generateNonce_sample)
  have nofail: "\<forall>entry \<in> set (resolvedCsp ?cfg). \<not> cspEntryFails entry"
    by (simp add: c cspEntryFails_def skipsEntry_def)
  have name: "cspHeaderName (resolvedCsp ?cfg) = ''Content-Security-Policy''"
    by (simp add: c cspHeaderName_def csp_get_def)
  have v: "js_join ''; '' (map renderDirective
             (cspDirectives (resolvedCsp ?cfg) (Some ''MTc2MjE4MDAwMDAwMHgybTRxNw=='')))
           = ?expected"
    unfolding c
    by (simp add: cspDirectives_def cspDirective_def skipsEntry_def noncedEntry_def
          csp_get_def truthy_string_def renderDirective_def kebab_def nonceToken_def
          squote_def is_upper_def to_lower_def)
  have nv: "normalize_value ?expected = ?expected"
    by (simp add: normalize_value_def http_whitespace_def squote_def)
  have p: "resolvedPermissionsPolicy ?cfg = DEFAULT_PERMISSIONS_POLICY"
    by (simp add: resolvedPermissionsPolicy_default empty_config_def)
  have h: "hsts (finalConfig ?cfg) = Value DEFAULT_HSTS"
    by (simp add: hsts_finalConfig resolvedHsts_default empty_config_def)
  have hval: "cspHeaderValue (resolvedCsp ?cfg) (cspNonce (resolvedCsp ?cfg) ?env) = ?expected"
    by (simp only: cspHeaderValue_def n v)
  have "valid_write (''Content-Security-Policy'', ?expected)"
    by (simp add: valid_write_def valid_header_name_def valid_header_value_def is_tchar_def
          normalize_value_def http_whitespace_def squote_def)
  then have cv: "valid_write (cspHeaderName (resolvedCsp ?cfg),
              cspHeaderValue (resolvedCsp ?cfg) (cspNonce (resolvedCsp ?cfg) ?env))"
    by (simp only: name hval)
  have valid: "list_all valid_write (expectedWrites ?cfg None ?env)"
    using valid_default_static
    by (simp add: valid_expectedWrites_iff cv p default_permissions_policy_valid
          default_hsts_valid [OF h] staticHeaders_empty_config_csp)
  from middleware_succeeds [OF kebab_cache_ok_empty nofail valid, of ?resp]
  obtain r' kc' where m: "middleware (closureOf ?cfg None) ?env Map.empty ?resp = (Inr r', kc')"
    by blast
  have "headers_get (headers r') (cspHeaderName (resolvedCsp ?cfg))
          = Some (normalize_value
              (cspHeaderValue (resolvedCsp ?cfg) (cspNonce (resolvedCsp ?cfg) ?env)))"
    using middleware_produced [OF kebab_cache_ok_empty m, of "cspHeaderName (resolvedCsp ?cfg)"]
    by (simp add: last_write_expectedWrites_csp)
  then have b: "headers_get (headers r') ''Content-Security-Policy'' = Some ?expected"
    by (simp only: name hval nv)
  have c': "csp (cl_finalConfig (closureOf ?cfg None)) = Value (resolvedCsp ?cfg)"
    by (simp add: closureOf_def csp_finalConfig)
  from last_write_requestWrites_nonce [OF middleware_Inr(1) [OF m] c' nonce]
    middleware_headers_get [OF m, of "''X-Nonce''"]
  have "headers_get (headers r') ''X-Nonce'' = Some (generateNonce ?env)"
    by (simp add: normalize_value_generateNonce)
  then have a: "headers_get (headers r') ''X-Nonce'' = Some ''MTc2MjE4MDAwMDAwMHgybTRxNw==''"
    by (simp only: generateNonce_sample)
  from accepted a b m show ?thesis
    by (simp only: producedHeader_def fst_conv sum.case simp_thms)
qed



subsection \<open>Claim C8\<close>



subsection \<open>Claim C9\<close>



subsection \<open>Claim C10\<close>

text \<open>
  C10: when \<^verbatim>\<open>useNonce\<close> is truthy in the resolved policy, every response the middleware
  produces carries the header \<^verbatim>\<open>X-Nonce\<close>, and its value is the (non-empty) nonce generated
  for the request, whatever the source lists of the policy are.
\<close>

theorem nonce_header_present:
  assumes "tirneHelmet config node_env = Inr cl"
      and "truthy (csp_get (resolvedCsp config) ''useNonce'')"
      and "middleware cl env kc response = (Inr response', kc')"
  shows "headers_get (headers response') ''X-Nonce'' = Some (generateNonce env)
         \<and> generateNonce env \<noteq> []"
proof -
  from assms(1) have cl: "cl = closureOf config node_env"
    by (simp add: tirneHelmet_Inr_iff)
  have c: "csp (cl_finalConfig cl) = Value (resolvedCsp config)"
    by (simp add: cl closureOf_def csp_finalConfig)
  from last_write_requestWrites_nonce [OF middleware_Inr(1) [OF assms(3)] c assms(2)]
    middleware_headers_get [OF assms(3), of "''X-Nonce''"]
  show ?thesis
    by (simp add: normalize_value_generateNonce generateNonce_nonempty)
qed

text \<open>
  The policy \<^verbatim>\<open>{ csp: { useNonce: true, scriptSrc: [], styleSrc: [] } }\<close>: no directive of
  the CSP header has a nonce token, and the response carries \<^verbatim>\<open>X-Nonce\<close>.
\<close>

theorem nonce_header_present_witness:
  "producedHeader
     (middleware
        (closureOf
           (empty_config\<lparr>csp := Value [(''useNonce'', Flag True), (''scriptSrc'', Sources []),
                                       (''styleSrc'', Sources [])]\<rparr>) None)
        \<lparr>now = 1762180000000, random36 = ''0.k3j9x2m4q7''\<rparr> Map.empty
        \<lparr>status = 200, statusText = ''OK'', body = ''hello'',
         headers = [(''content-type'', ''text/plain'')]\<rparr>)
     ''X-Nonce''
     = Some (Some ''MTc2MjE4MDAwMDAwMHgybTRxNw=='')
   \<and> producedHeader
     (middleware
        (closureOf
           (empty_config\<lparr>csp := Value [(''useNonce'', Flag True), (''scriptSrc'', Sources []),
                                       (''styleSrc'', Sources [])]\<rparr>) None)
        \<lparr>now = 1762180000000, random36 = ''0.k3j9x2m4q7''\<rparr> Map.empty
        \<lparr>status = 200, statusText = ''OK'', body = ''hello'',
         headers = [(''content-type'', ''text/plain'')]\<rparr>)
     ''Content-Security-Policy''
     = Some (Some (''default-src '' @ squote ''self'' @ ''; img-src '' @ squote ''self''
          @ '' data: blob:; font-src '' @ squote ''self'' @ ''; connect-src '' @ squote ''self''
          @ ''; frame-src '' @ squote ''self'' @ ''; object-src '' @ squote ''none''
          @ ''; base-uri '' @ squote ''self''))"
proof -
  let ?cfg = "empty_config\<lparr>csp := Value [(''useNonce'', Flag True), (''scriptSrc'', Sources []),
                                       (''styleSrc'', Sources [])]\<rparr>"
  let ?env = "\<lparr>now = 1762180000000, random36 = ''0.k3j9x2m4q7''\<rparr>"
  let ?resp = "\<lparr>status = 200, statusText = ''OK'', body = ''hello'',
                 headers = [(''content-type'', ''text/plain'')]\<rparr>"
  have accepted: "tirneHelmet ?cfg None = Inr (closureOf ?cfg None)"
    by (simp add: tirneHelmet_Inr_iff validateConfig_def empty_config_def)
  have c: "resolvedCsp ?cfg =
      [(''defaultSrc'', Sources [permission_SELF]),
       (''scriptSrc'', Sources []),
       (''styleSrc'', Sources []),
       (''imgSrc'', Sources [permission_SELF, permission_DATA, permission_BLOB]),
       (''fontSrc'', Sources [permission_SELF]),
       (''connectSrc'', Sources [permission_SELF]),
       (''frameSrc'', Sources [permission_SELF]),
       (''objectSrc'', Sources [permission_NONE]),
       (''baseUri'', Sources [permission_SELF]),
       (''useNonce'', Flag True)]"
    by (simp add: resolvedCsp_Value obj_assign_def DEFAULT_CSP_CONFIG_def)
  have nonce: "truthy (csp_get (resolvedCsp ?cfg) ''useNonce'')"
    by (simp add: c csp_get_def)
  have nofail: "\<forall>entry \<in> set (resolvedCsp ?cfg). \<not> cspEntryFails entry"
    by (simp add: c cspEntryFails_def skipsEntry_def)
  have pp: "resolvedPermissionsPolicy ?cfg = DEFAULT_PERMISSIONS_POLICY"
    by (simp add: resolvedPermissionsPolicy_default empty_config_def)
  have hs: "hsts (finalConfig ?cfg) = Value DEFAULT_HSTS"
    by (simp add: hsts_finalConfig resolvedHsts_default empty_config_def)
  have writes: "expectedWrites ?cfg None ?env =
     [(''X-Frame-Options'', ''DENY''),
      (''X-XSS-Protection'', ''1; mode=block''),
      (''X-Content-Type-Options'', ''nosniff''),
      (''Referrer-Policy'', ''strict-origin-when-cross-origin''),
      (''X-DNS-Prefetch-Control'', ''off''),
      (''Cross-Origin-Resource-Policy'', ''same-origin''),
      (''Cross-Origin-Opener-Policy'', ''same-origin''),
      (''Content-Security-Policy'',
       ''default-src '' @ squote ''self'' @ ''; img-src '' @ squote ''self''
          @ '' data: blob:; font-src '' @ squote ''self'' @ ''; connect-src '' @ squote ''self''
          @ ''; frame-src '' @ squote ''self'' @ ''; object-src '' @ squote ''none''
          @ ''; base-uri '' @ squote ''self''),
      (''X-Nonce'', ''MTc2MjE4MDAwMDAwMHgybTRxNw==''),
      (''Permissions-Policy'', ''camera=(), microphone=(), geolocation=(), interest-cohort=()'')]"
    by (simp add: expectedWrites_def staticHeaders_empty_config_csp c pp hs cspNonce_def
          csp_get_def generateNonce_sample
          cspHeaderName_def cspHeaderValue_def cspDirectives_def
          cspDirective_def skipsEntry_def noncedEntry_def renderDirective_def kebab_def
          DEFAULT_PERMISSIONS_POLICY_def
          permission_SELF_def permission_DATA_def permission_BLOB_def
          permission_NONE_def squote_def truthy_string_def
          buildPermissionsPolicyString_def hstsWrites_def hstsHeader_def isProduction_def
          is_upper_def to_lower_def)
  have valid: "list_all valid_write (expectedWrites ?cfg None ?env)"
    unfolding writes
    by (simp add: valid_write_def valid_header_name_def valid_header_value_def is_tchar_def
          normalize_value_def http_whitespace_def squote_def)
  from middleware_succeeds [OF kebab_cache_ok_empty nofail valid, of ?resp]
  obtain r' kc' where m: "middleware (closureOf ?cfg None) ?env Map.empty ?resp = (Inr r', kc')"
    by blast
  from nonce_header_present [OF accepted nonce m]
  have xn: "headers_get (headers r') ''X-Nonce'' = Some ''MTc2MjE4MDAwMDAwMHgybTRxNw==''"
    by (simp add: generateNonce_sample)
  have "headers_get (headers r') ''Content-Security-Policy''
     = Some (''default-src '' @ squote ''self'' @ ''; img-src '' @ squote ''self''
          @ '' data: blob:; font-src '' @ squote ''self'' @ ''; connect-src '' @ squote ''self''
          @ ''; frame-src '' @ squote ''self'' @ ''; object-src '' @ squote ''none''
          @ ''; base-uri '' @ squote ''self'')"
    unfolding middleware_produced [OF kebab_cache_ok_empty m] writes
    by (simp add: same_name_def lowercase_names normalize_value_def http_whitespace_def
          squote_def byte_lowercase_def to_lower_def is_upper_def)
  with xn m show ?thesis
    by (simp add: producedHeader_def)
qed

end
